theory Spec2Isabelle
  imports Main "HOL-Library.Word"
begin

section \<open>Bytes, text and exceptions\<close>

text \<open>
  The client library (package \<open>lauterbach.trace32.rcl._rc\<close>) speaks a binary protocol.
  A Python \<open>bytes\<close> or \<open>bytearray\<close> value is a list of 8-bit words, a Python \<open>int\<close> is an
  \<open>int\<close>, a length or an index that the code never lets go negative is a \<open>nat\<close>, and a
  Python \<open>str\<close> is the list of its code points. A \<open>float\<close> is carried as the 64 bits of
  its IEEE-754 representation, which is what \<open>struct.pack("d", x)\<close> writes.
  Every exception the modelled code can raise is a constructor of \<open>error\<close>, and a function
  that can raise returns \<open>error + 'a\<close>.
\<close>

type_synonym byte = "8 word"
type_synonym bytes = "byte list"
type_synonym pystr = "nat list"
type_synonym pyfloat = "64 word"

datatype error =
    TypeError
  | ValueError
  | IndexError
  | OverflowError
  | StructError
  | UnboundLocalError
  | AttributeError
  | UnicodeDecodeError
  | UnicodeEncodeError
  | AssertionError
  | NotImplementedError
  | ConnectionError
  | ConnectionResetError
  | SocketTimeout
  | OSError
  | RegisterValueError
  | BreakpointError
  | DirectAccessError
  | ApiError nat
  | ApiProtocolTransmitError
  | ApiConnectionSyncError
  | ApiConnectionConfigError
  | ApiConnectionInitError
  | ApiConnectionTimeoutError
  | ApiConnectionTransmitError

text \<open>The values a caller can assign to an attribute that the setters type-check.\<close>

datatype pyval = PNone | PInt int | PFloat pyfloat | PStr pystr

text \<open>Python's \<open>xs[a:b]\<close> for indices \<open>0 \<le> a\<close>, \<open>0 \<le> b\<close>: out-of-range bounds are clipped.\<close>

definition slice :: "nat \<Rightarrow> nat \<Rightarrow> 'a list \<Rightarrow> 'a list" where
  "slice a b xs = take (b - a) (drop a xs)"

text \<open>\<open>int.from_bytes(bs, byteorder="little", signed=False)\<close> and \<open>n.to_bytes(k, "little")\<close>
  for \<open>0 \<le> n < 256 ^ k\<close>.\<close>

fun from_bytes_le :: "bytes \<Rightarrow> nat" where
  "from_bytes_le [] = 0"
| "from_bytes_le (b # bs) = unat b + 256 * from_bytes_le bs"

fun to_bytes_le :: "nat \<Rightarrow> nat \<Rightarrow> bytes" where
  "to_bytes_le 0 n = []"
| "to_bytes_le (Suc k) n = of_nat (n mod 256) # to_bytes_le k (n div 256)"


text \<open>The ASCII text of a literal such as \<open>b"XX"\<close>, as bytes and as code points.\<close>

definition ascii :: "string \<Rightarrow> bytes" where
  "ascii s = map (\<lambda>c. of_nat (of_char c)) s"

definition text_of :: "string \<Rightarrow> pystr" where
  "text_of s = map of_char s"

subsection \<open>Text\<close>

text \<open>\<open>str.encode()\<close>: UTF-8. A surrogate code point cannot be encoded.\<close>

definition utf8_char :: "nat \<Rightarrow> bytes option" where
  "utf8_char cp =
     (if cp < 0x80 then Some [of_nat cp]
      else if cp < 0x800 then Some [of_nat (0xC0 + cp div 64), of_nat (0x80 + cp mod 64)]
      else if 0xD800 \<le> cp \<and> cp \<le> 0xDFFF then None
      else if cp < 0x10000 then
        Some [of_nat (0xE0 + cp div 4096), of_nat (0x80 + cp div 64 mod 64),
              of_nat (0x80 + cp mod 64)]
      else if cp < 0x110000 then
        Some [of_nat (0xF0 + cp div 262144), of_nat (0x80 + cp div 4096 mod 64),
              of_nat (0x80 + cp div 64 mod 64), of_nat (0x80 + cp mod 64)]
      else None)"

fun utf8_encode :: "pystr \<Rightarrow> error + bytes" where
  "utf8_encode [] = Inr []"
| "utf8_encode (cp # s) =
     (case utf8_char cp of
        None \<Rightarrow> Inl UnicodeEncodeError
      | Some bs \<Rightarrow> (case utf8_encode s of Inl e \<Rightarrow> Inl e | Inr rest \<Rightarrow> Inr (bs @ rest)))"




text \<open>\<open>s.lstrip(c)\<close>, \<open>s.rstrip(c)\<close> and \<open>s.strip(c)\<close> for a single character \<open>c\<close>.\<close>

definition lstrip :: "nat \<Rightarrow> pystr \<Rightarrow> pystr" where
  "lstrip c s = dropWhile (\<lambda>x. x = c) s"



text \<open>The field \<open>{n}s\<close> of \<open>struct.pack\<close>: the bytes cut or zero-padded to \<open>n\<close> bytes.\<close>

definition fit :: "nat \<Rightarrow> bytes \<Rightarrow> bytes" where
  "fit n bs = take n bs @ replicate (n - length bs) 0"

section \<open>Register objects (\<open>_register.py\<close>)\<close>

text \<open>
  A \<open>Register\<close> holds \<open>core\<close>, \<open>name\<close>, \<open>unit\<close>, \<open>value\<close> and \<open>fvalue\<close>, each \<open>None\<close> or a
  value. The attributes \<open>value\<close> and \<open>fvalue\<close> are properties whose setters check the type
  of what is assigned; the other three setters store what they get.
\<close>

record Register =
  reg_core :: "int option"
  reg_name :: "pystr option"
  reg_unit :: "pystr option"
  reg_value :: "int option"
  reg_fvalue :: "pyfloat option"

text \<open>The \<open>value\<close> setter: \<open>None\<close> clears \<open>value\<close> only, an \<open>int\<close> is stored and clears
  \<open>fvalue\<close>, anything else raises \<open>RegisterValueError\<close>.\<close>

fun Register_set_value :: "pyval \<Rightarrow> Register \<Rightarrow> error + Register" where
  "Register_set_value PNone r = Inr (r\<lparr>reg_value := None\<rparr>)"
| "Register_set_value (PInt v) r = Inr (r\<lparr>reg_value := Some v, reg_fvalue := None\<rparr>)"
| "Register_set_value _ r = Inl RegisterValueError"

text \<open>The \<open>fvalue\<close> setter, symmetric: a \<open>float\<close> is stored and clears \<open>value\<close>.\<close>

fun Register_set_fvalue :: "pyval \<Rightarrow> Register \<Rightarrow> error + Register" where
  "Register_set_fvalue PNone r = Inr (r\<lparr>reg_fvalue := None\<rparr>)"
| "Register_set_fvalue (PFloat f) r = Inr (r\<lparr>reg_fvalue := Some f, reg_value := None\<rparr>)"
| "Register_set_fvalue _ r = Inl RegisterValueError"

text \<open>\<open>Register.__init__\<close>: \<open>core\<close>, \<open>name\<close> and \<open>unit\<close> are stored, then \<open>value\<close> and
  \<open>fvalue\<close> go through their setters, in this order.\<close>

definition Register_init ::
  "int option \<Rightarrow> pystr option \<Rightarrow> pyval \<Rightarrow> pystr option \<Rightarrow> pyval \<Rightarrow> error + Register" where
  "Register_init core name val unit fval =
     (case Register_set_value val
             \<lparr>reg_core = core, reg_name = name, reg_unit = unit,
              reg_value = None, reg_fvalue = None\<rparr> of
        Inl e \<Rightarrow> Inl e
      | Inr r \<Rightarrow> Register_set_fvalue fval r)"

text \<open>An assignment statement \<open>reg.value = v\<close> or \<open>reg.fvalue = v\<close>. A statement whose
  setter raises leaves the object as it was.\<close>

datatype assignment = AssignValue pyval | AssignFvalue pyval

fun assign :: "assignment \<Rightarrow> Register \<Rightarrow> error + Register" where
  "assign (AssignValue v) r = Register_set_value v r"
| "assign (AssignFvalue v) r = Register_set_fvalue v r"

fun assign_all :: "assignment list \<Rightarrow> Register \<Rightarrow> Register" where
  "assign_all [] r = r"
| "assign_all (a # as) r =
     (case assign a r of Inl e \<Rightarrow> assign_all as r | Inr r' \<Rightarrow> assign_all as r')"

definition at_most_one_value :: "Register \<Rightarrow> bool" where
  "at_most_one_value r = (reg_value r = None \<or> reg_fvalue r = None)"

text \<open>\<open>Register.__eq__\<close>: \<open>NotImplemented\<close> when the other object is no \<open>Register\<close>,
  otherwise the comparison of \<open>core\<close>, \<open>name\<close> and \<open>value\<close>.\<close>

datatype pyobject = RegisterObj Register | OtherObj

datatype eq_result = NotImplemented | EqBool bool

fun Register_eq :: "Register \<Rightarrow> pyobject \<Rightarrow> eq_result" where
  "Register_eq self OtherObj = NotImplemented"
| "Register_eq self (RegisterObj other) =
     (if reg_core self = reg_core other \<and> reg_name self = reg_name other
         \<and> reg_value self = reg_value other
      then EqBool True else EqBool False)"

section \<open>The link\<close>

text \<open>
  \<open>CommunicationBase.__init__\<close> stores the packet length and the timeout and starts the
  counters at zero; \<open>CommunicationTcp\<close> and \<open>CommunicationUdp\<close> add nothing of their own.
  The socket is \<open>None\<close> until \<open>connect\<close> has run. The two queues hold what the receive
  path has dispatched; \<open>comm_sent\<close> lists, in order, every buffer the object has handed
  to \<open>socket.sendto\<close>.
\<close>

datatype transport = TCP | UDP

record Communication =
  comm_transport :: transport
  comm_connected :: bool
  comm_packlen :: int
  comm_timeout :: "pyfloat option"
  comm_message_id :: nat
  comm_transmit_block_id :: nat
  comm_receive_block_id :: nat
  comm_socket_content :: bytes
  comm_notify_queue :: "bytes list"
  comm_response_queue :: "bytes option list"
  comm_sent :: "bytes list"

definition CommunicationBase_init :: "transport \<Rightarrow> int \<Rightarrow> pyfloat option \<Rightarrow> Communication" where
  "CommunicationBase_init t packlen timeout =
     \<lparr>comm_transport = t, comm_connected = False, comm_packlen = packlen,
      comm_timeout = timeout, comm_message_id = 0, comm_transmit_block_id = 0,
      comm_receive_block_id = 0, comm_socket_content = [],
      comm_notify_queue = [], comm_response_queue = [], comm_sent = []\<rparr>"

text \<open>
  What the operating system and the peer do during \<open>connect\<close> is not in the code: whether
  the socket calls succeed, the receive buffer size \<open>getsockopt\<close> reports, the local port
  \<open>getsockname\<close> reports, and the datagram the peer answers to the connect request
  (\<open>None\<close> when \<open>recv\<close> times out).
\<close>

record sock_env =
  env_socket_ok :: bool
  env_rcvbuf :: int
  env_local_port :: int
  env_reply :: "bytes option"

definition CommunicationTcp_connect :: "sock_env \<Rightarrow> Communication \<Rightarrow> error + Communication" where
  "CommunicationTcp_connect env c =
     (if comm_connected c then Inr c
      else if env_socket_ok env then Inr (c\<lparr>comm_connected := True\<rparr>)
      else Inl OSError)"

definition MAGIC_PATTERN :: bytes where
  "MAGIC_PATTERN = ascii ''TRACE32'' @ [0]"

text \<open>\<open>struct.pack("BBHHH8s{n}x", 3, 1, block_id, port, receive_port, MAGIC_PATTERN)\<close> in
  native mode on a little-endian host: the three \<open>H\<close> fields sit at offsets 2, 4, 6 without
  padding. A field out of range, or a negative pad count in the format, is \<open>struct.error\<close>.\<close>

definition connect_request :: "int \<Rightarrow> nat \<Rightarrow> int \<Rightarrow> int \<Rightarrow> error + bytes" where
  "connect_request packlen block_id port receive_port =
     (if packlen - 16 < 0 \<or> 65535 < block_id \<or> port < 0 \<or> 65535 < port
         \<or> receive_port < 0 \<or> 65535 < receive_port
      then Inl StructError
      else Inr ([3, 1] @ to_bytes_le 2 block_id @ to_bytes_le 2 (nat port)
                @ to_bytes_le 2 (nat receive_port) @ MAGIC_PATTERN
                @ replicate (nat (packlen - 16)) 0))"

definition CommunicationUdp_connect ::
  "sock_env \<Rightarrow> int \<Rightarrow> Communication \<Rightarrow> error + Communication" where
  "CommunicationUdp_connect env port c =
     (if comm_connected c then Inr c
      else if \<not> env_socket_ok env then Inl ApiConnectionInitError
      else
        let c1 = c\<lparr>comm_connected := True,
                   comm_packlen := min (env_rcvbuf env) (comm_packlen c),
                   comm_transmit_block_id := 1\<rparr>
        in case connect_request (comm_packlen c1) 1 port (env_local_port env) of
             Inl e \<Rightarrow> Inl e
           | Inr magic_sequence \<Rightarrow>
               (case env_reply env of
                  None \<Rightarrow> Inl ApiConnectionInitError
                | Some data \<Rightarrow>
                    (case data of
                       [] \<Rightarrow> Inl IndexError
                     | d0 # rest \<Rightarrow>
                         if d0 \<noteq> 0x13 then Inl ApiConnectionInitError
                         else if rest \<noteq> tl magic_sequence then Inl ApiConnectionInitError
                         else Inr (c1\<lparr>comm_sent := comm_sent c1 @ [magic_sequence],
                                      comm_receive_block_id :=
                                         from_bytes_le (slice 2 4 data)\<rparr>))))"

text \<open>
  \<open>Link.__init__\<close>. The property setters have already converted \<open>port\<close> and \<open>packlen\<close>
  with \<open>int()\<close> and \<open>timeout\<close> with \<open>float()\<close>; the \<open>protocol\<close> setter raises
  \<open>ApiConnectionConfigError\<close> for a name other than \<open>"TCP"\<close> and \<open>"UDP"\<close>, so the final
  \<open>NotImplementedError\<close> branch of the constructor is never reached.
\<close>

record Link =
  link_node :: string
  link_port :: int
  link_packlen :: int
  link_protocol :: string
  link_timeout :: "pyfloat option"
  link_message_id :: nat
  link_line :: Communication

definition Link_init ::
  "sock_env \<Rightarrow> string \<Rightarrow> int \<Rightarrow> int \<Rightarrow> string \<Rightarrow> pyfloat option \<Rightarrow> error + Link" where
  "Link_init env node port packlen protocol timeout =
     (if protocol \<noteq> ''TCP'' \<and> protocol \<noteq> ''UDP'' then Inl ApiConnectionConfigError
      else
        let line0 = (if protocol = ''TCP'' then CommunicationBase_init TCP 0x4000 timeout
                     else CommunicationBase_init UDP packlen timeout);
            connected = (if protocol = ''TCP'' then CommunicationTcp_connect env line0
                         else CommunicationUdp_connect env port line0)
        in case connected of
             Inl e \<Rightarrow> Inl e
           | Inr line \<Rightarrow>
               Inr \<lparr>link_node = node, link_port = port, link_packlen = packlen,
                    link_protocol = protocol, link_timeout = timeout,
                    link_message_id = 0, link_line = line\<rparr>)"

section \<open>The receive path (\<open>hlinknet.py\<close>)\<close>

subsection \<open>TCP\<close>

text \<open>
  \<open>CommunicationTcp.extract_message\<close> loops over \<open>socket_content\<close>. With fewer than eight
  bytes buffered it empties the buffer and stops; with a header but not yet the whole
  message it stops and keeps the buffer; otherwise it removes the message, rounded up to
  a multiple of eight bytes, and puts the payload into the queue of its type. A message
  of another type raises \<open>ConnectionError\<close> after the message has been removed from the
  buffer, so the function returns the object's state together with the exception, if any.
\<close>

definition tcp_message_len :: "bytes \<Rightarrow> nat" where
  "tcp_message_len socket_content = from_bytes_le (slice 0 4 socket_content) + 8"

definition tcp_message_len_stuffed :: "bytes \<Rightarrow> nat" where
  "tcp_message_len_stuffed socket_content = ((tcp_message_len socket_content + 8 - 1) div 8) * 8"

function CommunicationTcp_extract_message :: "Communication \<Rightarrow> Communication \<times> error option" where
  "CommunicationTcp_extract_message c =
     (if length (comm_socket_content c) \<ge> 8 then
        if length (comm_socket_content c) \<ge> tcp_message_len (comm_socket_content c) then
          (if from_bytes_le (slice 4 8 (comm_socket_content c)) = 0x12 then
             CommunicationTcp_extract_message
               (c\<lparr>comm_socket_content :=
                     drop (tcp_message_len_stuffed (comm_socket_content c)) (comm_socket_content c),
                   comm_notify_queue := comm_notify_queue c @
                     [slice 8 (tcp_message_len (comm_socket_content c)) (comm_socket_content c)]\<rparr>)
           else if from_bytes_le (slice 4 8 (comm_socket_content c)) = 0x11 then
             CommunicationTcp_extract_message
               (c\<lparr>comm_socket_content :=
                     drop (tcp_message_len_stuffed (comm_socket_content c)) (comm_socket_content c),
                   comm_response_queue := comm_response_queue c @
                     [Some (slice 8 (tcp_message_len (comm_socket_content c)) (comm_socket_content c))]\<rparr>)
           else
             (c\<lparr>comm_socket_content :=
                   drop (tcp_message_len_stuffed (comm_socket_content c)) (comm_socket_content c)\<rparr>,
              Some ConnectionError))
        else (c, None)
      else (c\<lparr>comm_socket_content := []\<rparr>, None))"
  by pat_completeness auto
termination
  by (relation "measure (\<lambda>c. length (comm_socket_content c))")
     (auto simp: tcp_message_len_stuffed_def tcp_message_len_def)

declare CommunicationTcp_extract_message.simps [simp del]

text \<open>\<open>CommunicationTcp.poll_response\<close>, given the bytes \<open>recvfrom\<close> returned.\<close>

definition CommunicationTcp_poll_response :: "bytes \<Rightarrow> Communication \<Rightarrow> Communication \<times> error option" where
  "CommunicationTcp_poll_response message_received c =
     (if \<not> comm_connected c then (c, Some ValueError)
      else CommunicationTcp_extract_message
             (c\<lparr>comm_socket_content := comm_socket_content c @ message_received\<rparr>))"

text \<open>The receive path fed with a sequence of socket reads, stopping at the first exception.\<close>

fun tcp_feed :: "bytes list \<Rightarrow> Communication \<Rightarrow> Communication \<times> error option" where
  "tcp_feed [] c = (c, None)"
| "tcp_feed (r # rs) c =
     (case CommunicationTcp_poll_response r c of
        (c', Some e) \<Rightarrow> (c', Some e)
      | (c', None) \<Rightarrow> tcp_feed rs c')"

text \<open>\<open>CommunicationTcp.transmit\<close>: \<open>struct.pack("II{size}s{pad}x", size, 0x10, data)\<close>, where
  \<open>pad = align_eight(size + 8)\<close>. Any exception inside is re-raised as
  \<open>ApiConnectionTransmitError\<close>; the socket itself is taken to accept the buffer.\<close>

definition align_up :: "nat \<Rightarrow> nat \<Rightarrow> nat" where
  "align_up n m = (if n mod m \<noteq> 0 then m - n mod m else 0)"

definition align_eight :: "nat \<Rightarrow> nat" where
  "align_eight n = align_up n 8"

definition tcp_frame :: "nat \<Rightarrow> bytes \<Rightarrow> bytes" where
  "tcp_frame message_type data =
     to_bytes_le 4 (length data) @ to_bytes_le 4 message_type @ data
     @ replicate (align_eight (length data + 4 + 4)) 0"

definition CommunicationTcp_transmit :: "bytes \<Rightarrow> Communication \<Rightarrow> error + Communication" where
  "CommunicationTcp_transmit data c =
     (if \<not> comm_connected c \<or> 2 ^ 32 \<le> length data then Inl ApiConnectionTransmitError
      else Inr (c\<lparr>comm_sent := comm_sent c @ [tcp_frame 0x10 data]\<rparr>))"

subsection \<open>UDP\<close>

text \<open>\<open>CommunicationUdp.extract_message\<close>. Byte 0 of the packet is the message class, byte 1
  says whether the message is complete. The handshake answer is sent through the socket.\<close>

definition udp_handshake :: bytes where
  "udp_handshake = [7, 0, 0, 0, 0, 0, 0, 0] @ MAGIC_PATTERN"

definition CommunicationUdp_extract_message :: "bytes \<Rightarrow> Communication \<Rightarrow> Communication \<times> error option" where
  "CommunicationUdp_extract_message packet c =
     (let header_length = (if comm_socket_content c \<noteq> [] then 4 else 7 :: nat) in
      case packet of
        [] \<Rightarrow> (c, Some IndexError)
      | p0 # _ \<Rightarrow>
          if p0 = 0x2B then (c, None)
          else if length packet < header_length then (c, None)
          else if packet ! 1 = 0x02 then
            (if comm_connected c then (c\<lparr>comm_sent := comm_sent c @ [udp_handshake]\<rparr>, None)
             else (c, Some ConnectionResetError))
          else if packet ! 1 = 0x00 then
            (let content = comm_socket_content c @ drop header_length packet in
             if p0 = 0x06 then
               (c\<lparr>comm_socket_content := [],
                  comm_notify_queue := comm_notify_queue c @ [content]\<rparr>, None)
             else if p0 = 0x01 then
               (c\<lparr>comm_socket_content := [],
                  comm_response_queue := comm_response_queue c @ [Some content]\<rparr>, None)
             else (c\<lparr>comm_socket_content := content\<rparr>, Some ConnectionError))
          else if packet ! 1 = 0x01 then
            (c\<lparr>comm_socket_content := comm_socket_content c @ drop header_length packet\<rparr>, None)
          else (c, None))"

definition CommunicationUdp_poll_response :: "bytes \<Rightarrow> Communication \<Rightarrow> Communication \<times> error option" where
  "CommunicationUdp_poll_response packet_received c =
     (if \<not> comm_connected c then (c, Some ValueError)
      else CommunicationUdp_extract_message packet_received c)"

definition poll_response :: "bytes \<Rightarrow> Communication \<Rightarrow> Communication \<times> error option" where
  "poll_response received c =
     (case comm_transport c of
        TCP \<Rightarrow> CommunicationTcp_poll_response received c
      | UDP \<Rightarrow> CommunicationUdp_poll_response received c)"

subsection \<open>Waiting for the response\<close>

text \<open>
  \<open>CommunicationBase.receive\<close> takes entries from the response queue until one settles the
  call. When the queue is empty it calls \<open>poll_response\<close>, which raises \<open>ValueError\<close> when
  there is no socket and reads the socket once otherwise; \<open>incoming\<close> lists what the
  following socket reads return, and a read with nothing left raises \<open>socket.timeout\<close>. The result comes with the reads that are left and the state
  of the object.
\<close>

function receive ::
  "int \<Rightarrow> bytes list \<Rightarrow> Communication \<Rightarrow> (error + bytes) \<times> bytes list \<times> Communication" where
  "receive message_id incoming c =
     (case comm_response_queue c of
        [] \<Rightarrow>
          if \<not> comm_connected c then (Inl ValueError, incoming, c)
          else
            (case incoming of
               [] \<Rightarrow> (Inl SocketTimeout, [], c)
             | r # rs \<Rightarrow>
                 (case poll_response r c of
                    (c', Some e) \<Rightarrow> (Inl e, rs, c')
                  | (c', None) \<Rightarrow> receive message_id rs c'))
      | entry # queue \<Rightarrow>
          (case entry of
             None \<Rightarrow> (Inl ConnectionError, incoming, c\<lparr>comm_response_queue := queue\<rparr>)
           | Some message \<Rightarrow>
               if message = [] then receive message_id incoming (c\<lparr>comm_response_queue := queue\<rparr>)
               else if message ! 0 = 0xFE then
                 receive message_id incoming (c\<lparr>comm_response_queue := queue\<rparr>)
               else if length message < 2 then
                 (Inl IndexError, incoming, c\<lparr>comm_response_queue := queue\<rparr>)
               else if uint (message ! 1) < message_id then
                 receive message_id incoming (c\<lparr>comm_response_queue := queue\<rparr>)
               else if uint (message ! 1) = message_id then
                 (Inr message, incoming, c\<lparr>comm_response_queue := queue\<rparr>)
               else (Inl ConnectionError, incoming, c\<lparr>comm_response_queue := queue\<rparr>)))"
  by pat_completeness auto
termination
  by (relation "measures [\<lambda>(m, incoming, c). length incoming,
                          \<lambda>(m, incoming, c). length (comm_response_queue c)]")
     auto

declare receive.simps [simp del]

subsection \<open>The UDP sync exchange\<close>

text \<open>\<open>struct.pack("BBHI8s", kind, 0, block_id, 0, MAGIC_PATTERN)\<close>, sixteen bytes.\<close>

definition sync_packet :: "byte \<Rightarrow> nat \<Rightarrow> bytes" where
  "sync_packet kind block_id = [kind, 0] @ to_bytes_le 2 block_id @ to_bytes_le 4 0 @ MAGIC_PATTERN"

text \<open>
  \<open>CommunicationUdp.sync\<close> sends a sync request and reads up to \<open>maxTries\<close> datagrams.
  A sync-back request (class 5, sixteen bytes) makes it call itself with
  \<open>maxTries - attempt\<close>, where \<open>attempt\<close> is the index of the current read, counted from 0.
  \<open>sync_attempts\<close> is the \<open>for\<close> loop from index \<open>attempt\<close> on: it yields the
  \<open>success\<close> flag the loop leaves behind, or the exception. Every exception inside the
  \<open>try\<close> block, the timeout of a read with nothing left included, is re-raised as
  \<open>ApiConnectionSyncError\<close>; without a socket that is what the first \<open>sendto\<close> does.
  The result comes with the datagrams not yet read.
\<close>

function sync :: "nat \<Rightarrow> bytes list \<Rightarrow> Communication \<Rightarrow> (error + bool) \<times> bytes list \<times> Communication"
  and sync_attempts ::
    "nat \<Rightarrow> nat \<Rightarrow> bytes list \<Rightarrow> Communication \<Rightarrow> (error + bool) \<times> bytes list \<times> Communication"
where
  "sync maxTries incoming c =
     (if 65535 < comm_transmit_block_id c then (Inl StructError, incoming, c)
      else if \<not> comm_connected c then (Inl ApiConnectionSyncError, incoming, c)
      else
        case sync_attempts 0 maxTries incoming
               (c\<lparr>comm_sent := comm_sent c @ [sync_packet 0x02 (comm_transmit_block_id c)]\<rparr>) of
          (Inl e, rest, c') \<Rightarrow> (Inl ApiConnectionSyncError, rest, c')
        | (Inr success, rest, c') \<Rightarrow>
            if \<not> success then
              (Inr True, rest,
               c'\<lparr>comm_sent := comm_sent c' @ [sync_packet 0x22 (comm_transmit_block_id c')]\<rparr>)
            else (Inr True, rest, c'))"
| "sync_attempts attempt maxTries incoming c =
     (if attempt \<ge> maxTries then (Inl ApiConnectionSyncError, incoming, c)
      else
        case incoming of
          [] \<Rightarrow> (Inl SocketTimeout, [], c)
        | recv_data # rest \<Rightarrow>
            if recv_data = [] then (Inl IndexError, rest, c)
            else if recv_data ! 0 = 0x05 \<and> length recv_data = 16 then
              sync (maxTries - attempt) rest c
            else if recv_data ! 0 = 0x12 \<and> length recv_data = 16
                    \<and> drop 8 recv_data = MAGIC_PATTERN then
              (Inr False, rest,
               c\<lparr>comm_receive_block_id := from_bytes_le (slice 2 4 recv_data)\<rparr>)
            else sync_attempts (attempt + 1) maxTries rest c)"
  by pat_completeness auto
termination
  by (relation "measure (\<lambda>x. case x of
                    Inl (m, incoming, c) \<Rightarrow> 2 * length incoming + 1
                  | Inr (a, m, incoming, c) \<Rightarrow> 2 * length incoming)")
     auto

declare sync.simps [simp del] sync_attempts.simps [simp del]

subsection \<open>Sending over UDP\<close>

text \<open>\<open>struct.pack("BBH{n}s", 0x11, flag, block_id, chunk)\<close>.\<close>

definition udp_packet :: "byte \<Rightarrow> nat \<Rightarrow> bytes \<Rightarrow> bytes" where
  "udp_packet following block_id chunk = [0x11, following] @ to_bytes_le 2 block_id @ chunk"

text \<open>The \<open>while chunk:\<close> loop of \<open>CommunicationUdp.transmit\<close> for a positive chunk size;
  \<open>data\<close> is the buffer from the start of the current chunk on. It yields the datagrams
  and the block id after the last one.\<close>

function udp_chunks :: "nat \<Rightarrow> bytes \<Rightarrow> nat \<Rightarrow> bytes list \<times> nat" where
  "udp_chunks chunk_size data block_id =
     (if chunk_size = 0 \<or> data = [] then ([], block_id)
      else
        case udp_chunks chunk_size (drop chunk_size data) ((block_id + 1) mod 65536) of
          (packets, b) \<Rightarrow>
            (udp_packet (if drop chunk_size data \<noteq> [] then 1 else 0) block_id
               (take chunk_size data) # packets, b))"
  by pat_completeness auto
termination
  by (relation "measure (\<lambda>(chunk_size, data, block_id). length data)") auto

declare udp_chunks.simps [simp del]

text \<open>
  \<open>CommunicationUdp.transmit\<close> puts five zero bytes before the data and cuts the buffer
  into chunks of \<open>packlen - 4\<close> bytes. With a chunk size of zero the first chunk is empty
  and nothing is sent. With a negative chunk size \<open>-k\<close> the slice \<open>data[:-k]\<close> is sent as
  one datagram flagged as followed by more, and the next slice is empty.
\<close>

definition CommunicationUdp_transmit :: "bytes \<Rightarrow> Communication \<Rightarrow> error + Communication" where
  "CommunicationUdp_transmit data c =
     (let buf = replicate 5 0 @ data; chunk_size = comm_packlen c - 4 in
      if chunk_size = 0 then Inr c
      else if chunk_size < 0 \<and> length buf \<le> nat (- chunk_size) then Inr c
      else if \<not> comm_connected c \<or> 65535 < comm_transmit_block_id c
      then Inl ApiConnectionTransmitError
      else if chunk_size < 0 then
        Inr (c\<lparr>comm_sent := comm_sent c @
                   [udp_packet 1 (comm_transmit_block_id c)
                      (take (length buf - nat (- chunk_size)) buf)],
               comm_transmit_block_id := (comm_transmit_block_id c + 1) mod 65536\<rparr>)
      else
        case udp_chunks (nat chunk_size) buf (comm_transmit_block_id c) of
          (packets, b) \<Rightarrow>
            Inr (c\<lparr>comm_sent := comm_sent c @ packets, comm_transmit_block_id := b\<rparr>))"

section \<open>The request and response engine (\<open>_library.py\<close>)\<close>

text \<open>The methods of \<open>Link\<close> that delegate to the transport.\<close>

definition Link_get_message_id :: "Link \<Rightarrow> nat" where
  "Link_get_message_id l = link_message_id l mod 255"

definition Link_increment_message_id :: "Link \<Rightarrow> nat \<times> Link" where
  "Link_increment_message_id l =
     ((link_message_id l + 1) mod 255, l\<lparr>link_message_id := link_message_id l + 1\<rparr>)"

definition Link_transmit :: "bytes \<Rightarrow> Link \<Rightarrow> error + Link" where
  "Link_transmit data l =
     (case (case comm_transport (link_line l) of
              TCP \<Rightarrow> CommunicationTcp_transmit data (link_line l)
            | UDP \<Rightarrow> CommunicationUdp_transmit data (link_line l)) of
        Inl e \<Rightarrow> Inl e
      | Inr c \<Rightarrow> Inr (l\<lparr>link_line := c\<rparr>))"

text \<open>\<open>Link.receive\<close> waits for the message with the current id and turns a socket
  timeout into \<open>ApiConnectionTimeoutError\<close>.\<close>

definition Link_receive :: "bytes list \<Rightarrow> Link \<Rightarrow> (error + bytes) \<times> bytes list \<times> Link" where
  "Link_receive incoming l =
     (case receive (int (Link_get_message_id l)) incoming (link_line l) of
        (result, rest, c) \<Rightarrow>
          ((case result of
              Inl SocketTimeout \<Rightarrow> Inl ApiConnectionTimeoutError
            | _ \<Rightarrow> result),
           rest, l\<lparr>link_line := c\<rparr>))"

text \<open>
  The envelope of a request, the two \<open>struct.pack\<close> calls of \<open>generic_api_call\<close>:
  \<open>"<BBBB{n}s{n % 2}x"\<close> with the length byte first (compact form), or
  \<open>"<BBBBH{n}s{n % 2}x"\<close> with a zero byte first and a 16-bit length after the message id
  (extended form). \<open>msg_len\<close> is \<open>force_length\<close> when it is given and two more than the
  payload length otherwise. A field that does not fit its format is \<open>struct.error\<close>.
\<close>

definition envelope ::
  "int \<Rightarrow> int \<Rightarrow> nat \<Rightarrow> bytes \<Rightarrow> int option \<Rightarrow> bool \<Rightarrow> error + bytes" where
  "envelope rapi_cmd opt_arg message_id payload force_length force_16bit_length =
     (let msg_len = (case force_length of None \<Rightarrow> 2 + int (length payload) | Some f \<Rightarrow> f);
          pad = replicate (length payload mod 2) (0 :: byte) in
      if msg_len > 0xFF \<or> force_16bit_length then
        if msg_len + 2 > 0xF000 then Inl ApiProtocolTransmitError
        else if rapi_cmd < 0 \<or> 255 < rapi_cmd \<or> opt_arg < 0 \<or> 255 < opt_arg
                \<or> 255 < message_id \<or> msg_len + 2 < 0
        then Inl StructError
        else Inr ([0, of_int rapi_cmd, of_int opt_arg, of_nat message_id]
                  @ to_bytes_le 2 (nat (msg_len + 2)) @ payload @ pad)
      else if rapi_cmd < 0 \<or> 255 < rapi_cmd \<or> opt_arg < 0 \<or> 255 < opt_arg
              \<or> 255 < message_id \<or> msg_len < 0
      then Inl StructError
      else Inr ([of_int msg_len, of_int rapi_cmd, of_int opt_arg, of_nat message_id]
                @ payload @ pad))"

text \<open>
  The second half of \<open>generic_api_call\<close>, after the request has been transmitted: wait for
  the response; a status byte other than 0 goes through \<open>raise_error\<close>, which looks the
  code up in \<open>error_code_exception_mapping\<close> and raises the exception found there
  (\<open>ApiError\<close> for a code that is not in the table). The model keeps the code in
  \<open>ApiError\<close> for all of them. On success the response without its first two bytes is
  returned.
\<close>

definition generic_api_call_response ::
  "bytes list \<Rightarrow> Link \<Rightarrow> (error + bytes option) \<times> bytes list \<times> Link" where
  "generic_api_call_response incoming l =
     (case Link_receive incoming l of
        (Inl e, rest, l') \<Rightarrow> (Inl e, rest, l')
      | (Inr recv_data, rest, l') \<Rightarrow>
          (case recv_data of
             [] \<Rightarrow> (Inl IndexError, rest, l')
           | status # _ \<Rightarrow>
               if status \<noteq> 0 then (Inl (ApiError (unat status)), rest, l')
               else (Inr (Some (drop 2 recv_data)), rest, l')))"

text \<open>
  \<open>Library.generic_api_call\<close>. The message id is incremented while the arguments of
  \<open>struct.pack\<close> are evaluated, so it is already advanced when \<open>struct.pack\<close> or
  \<open>transmit\<close> raises, but not when the length check raises. A call with \<open>sendonly\<close>
  returns \<open>None\<close>. The state of the link is returned in every case.
\<close>

definition generic_api_call ::
  "int \<Rightarrow> int \<Rightarrow> bool \<Rightarrow> bytes \<Rightarrow> int option \<Rightarrow> bool \<Rightarrow> bytes list \<Rightarrow> Link
     \<Rightarrow> (error + bytes option) \<times> bytes list \<times> Link" where
  "generic_api_call rapi_cmd opt_arg sendonly payload force_length force_16bit_length incoming l =
     (case Link_increment_message_id l of
        (message_id, l1) \<Rightarrow>
          (case envelope rapi_cmd opt_arg message_id payload force_length force_16bit_length of
             Inl ApiProtocolTransmitError \<Rightarrow> (Inl ApiProtocolTransmitError, incoming, l)
           | Inl e \<Rightarrow> (Inl e, incoming, l1)
           | Inr send_data \<Rightarrow>
               (case Link_transmit send_data l1 of
                  Inl e \<Rightarrow> (Inl e, incoming, l1)
                | Inr l2 \<Rightarrow>
                    if sendonly then (Inr None, incoming, l2)
                    else generic_api_call_response incoming l2)))"

section \<open>Address objects (\<open>_address.py\<close>)\<close>

text \<open>An \<open>Address\<close> holds an optional access class string and a value.\<close>

record Address =
  addr_access :: "pystr option"
  addr_value :: "int option"

text \<open>\<open>int2bytearray(n, length)\<close>: signed for a negative \<open>n\<close>, unsigned otherwise;
  \<open>OverflowError\<close> when \<open>n\<close> does not fit.\<close>

definition int2bytearray :: "int \<Rightarrow> nat \<Rightarrow> error + bytes" where
  "int2bytearray n len =
     (if n < 0 then
        (if n < - (2 ^ (8 * len - 1)) \<or> len = 0 then Inl OverflowError
         else Inr (to_bytes_le len (nat (n + 2 ^ (8 * len)))))
      else if 2 ^ (8 * len) \<le> n then Inl OverflowError
      else Inr (to_bytes_le len (nat n)))"

text \<open>\<open>struct.pack("<2sH", tag, v)\<close>: the tag and a 16-bit field.\<close>

definition pack_2sH :: "string \<Rightarrow> int \<Rightarrow> error + bytes" where
  "pack_2sH tag v =
     (if v < 0 \<or> 0xFFFF < v then Inl StructError
      else Inr (ascii tag @ to_bytes_le 2 (nat v)))"

text \<open>
  \<open>Address.serialize(address_offset, width=width)\<close>: the address type 3 (64 bit), the value
  plus the offset in eight bytes, the access class (if any) as the field \<open>AC\<close> with its
  NUL-padded text of even length, the width (if any) as the field \<open>WI\<close>, and the end
  marker. The result is the pair of the length and the bytes.
\<close>

definition Address_access_field :: "pystr \<Rightarrow> error + bytes" where
  "Address_access_field access =
     (case utf8_encode access of
        Inl e \<Rightarrow> Inl e
      | Inr enc \<Rightarrow>
          (let access_len = length enc + 1 + (length enc + 1) mod 2 in
           if 0xFFFF < access_len then Inl StructError
           else Inr (ascii ''AC'' @ to_bytes_le 2 access_len @ fit access_len enc)))"

definition Address_serialize :: "int \<Rightarrow> int option \<Rightarrow> Address \<Rightarrow> error + nat \<times> bytes" where
  "Address_serialize address_offset width self =
     (case addr_value self of
        None \<Rightarrow> Inl TypeError
      | Some v \<Rightarrow>
          (case int2bytearray (v + address_offset) 8 of
             Inl e \<Rightarrow> Inl e
           | Inr value_bytes \<Rightarrow>
               (case (case addr_access self of
                        None \<Rightarrow> Inr []
                      | Some access \<Rightarrow> Address_access_field access) of
                  Inl e \<Rightarrow> Inl e
                | Inr access_bytes \<Rightarrow>
                    (case (case width of None \<Rightarrow> Inr [] | Some w \<Rightarrow> pack_2sH ''WI'' w) of
                       Inl e \<Rightarrow> Inl e
                     | Inr width_bytes \<Rightarrow>
                         (let result = [3, 0] @ value_bytes @ access_bytes @ width_bytes
                                       @ ascii ''XX''
                          in Inr (length result, result))))))"





section \<open>Breakpoint objects (\<open>_breakpoint.py\<close>)\<close>

text \<open>The three \<open>IntEnum\<close> classes of a breakpoint with their values; looking a value up
  that no member has raises \<open>ValueError\<close>.\<close>

datatype Action = NONE | STOP | SPOT | ALPHA | BETA | CHARLIE | DELTA | ECHO | WATCH
  | TRACEENABLE | TRACEDATA | TRACEON | TRACEOFF | TRACETRIGGER

datatype Type = DELETED | PROGRAM | READ | WRITE | RW

datatype Impl = AUTO | SOFT | ONCHIP | HARD | MARK

fun Action_value :: "Action \<Rightarrow> nat" where
  "Action_value NONE = 0x00"
| "Action_value STOP = 0x01"
| "Action_value SPOT = 0x02"
| "Action_value ALPHA = 0x04"
| "Action_value BETA = 0x08"
| "Action_value CHARLIE = 0x10"
| "Action_value DELTA = 0x20"
| "Action_value ECHO = 0x40"
| "Action_value WATCH = 0x02000000"
| "Action_value TRACEENABLE = 0x04000000"
| "Action_value TRACEDATA = 0x08000000"
| "Action_value TRACEON = 0x10000000"
| "Action_value TRACEOFF = 0x20000000"
| "Action_value TRACETRIGGER = 0x40000000"

definition Action_of :: "nat \<Rightarrow> error + Action" where
  "Action_of v =
     (if v = 0x00 then Inr NONE else if v = 0x01 then Inr STOP else if v = 0x02 then Inr SPOT
      else if v = 0x04 then Inr ALPHA else if v = 0x08 then Inr BETA
      else if v = 0x10 then Inr CHARLIE else if v = 0x20 then Inr DELTA
      else if v = 0x40 then Inr ECHO else if v = 0x02000000 then Inr WATCH
      else if v = 0x04000000 then Inr TRACEENABLE else if v = 0x08000000 then Inr TRACEDATA
      else if v = 0x10000000 then Inr TRACEON else if v = 0x20000000 then Inr TRACEOFF
      else if v = 0x40000000 then Inr TRACETRIGGER else Inl ValueError)"

fun Type_value :: "Type \<Rightarrow> nat" where
  "Type_value DELETED = 0x00"
| "Type_value PROGRAM = 0x01"
| "Type_value READ = 0x02"
| "Type_value WRITE = 0x04"
| "Type_value RW = 0x06"

definition Type_of :: "nat \<Rightarrow> error + Type" where
  "Type_of v =
     (if v = 0x00 then Inr DELETED else if v = 0x01 then Inr PROGRAM
      else if v = 0x02 then Inr READ else if v = 0x04 then Inr WRITE
      else if v = 0x06 then Inr RW else Inl ValueError)"

fun Impl_value :: "Impl \<Rightarrow> nat" where
  "Impl_value AUTO = 0x00"
| "Impl_value SOFT = 0x01"
| "Impl_value ONCHIP = 0x02"
| "Impl_value HARD = 0x04"
| "Impl_value MARK = 0x08"

definition Impl_of :: "nat \<Rightarrow> error + Impl" where
  "Impl_of v =
     (if v = 0x00 then Inr AUTO else if v = 0x01 then Inr SOFT
      else if v = 0x02 then Inr ONCHIP else if v = 0x04 then Inr HARD
      else if v = 0x08 then Inr MARK else Inl ValueError)"







section \<open>Symbol objects (\<open>_symbol.py\<close>)\<close>








section \<open>Serialized registers (\<open>_register.py\<close>)\<close>













section \<open>Memory access bundles (\<open>_memory_bundle.py\<close>)\<close>

text \<open>The three kinds of access of a bundle. The \<open>width\<close> attribute is stored and never
  used: every access serializes its address with \<open>width=1\<close>.\<close>

datatype MemoryAccess =
    MemoryReadAccess Address int "int option"
  | MemoryWriteAccess Address bytes "int option"
  | MemoryReadWriteAccess Address bytes bytes "int option"

text \<open>\<open>struct.pack("<HH", kind, n)\<close>.\<close>

definition pack_HH :: "nat \<Rightarrow> int \<Rightarrow> error + bytes" where
  "pack_HH kind n =
     (if n < 0 \<or> 0xFFFF < n then Inl StructError
      else Inr (to_bytes_le 2 kind @ to_bytes_le 2 (nat n)))"

fun MemoryAccess_serialize :: "MemoryAccess \<Rightarrow> error + bytes" where
  "MemoryAccess_serialize (MemoryReadAccess address len width) =
     (case pack_HH 1 len of
        Inl e \<Rightarrow> Inl e
      | Inr head \<Rightarrow>
          (case Address_serialize 0 (Some 1) address of
             Inl e \<Rightarrow> Inl e
           | Inr (n, addr) \<Rightarrow> Inr (head @ addr)))"
| "MemoryAccess_serialize (MemoryWriteAccess address data width) =
     (case pack_HH 0 (int (length data)) of
        Inl e \<Rightarrow> Inl e
      | Inr head \<Rightarrow>
          (case Address_serialize 0 (Some 1) address of
             Inl e \<Rightarrow> Inl e
           | Inr (n, addr) \<Rightarrow>
               Inr (head @ addr @ data @ (if length data mod 2 \<noteq> 0 then [0] else []))))"
| "MemoryAccess_serialize (MemoryReadWriteAccess address data msk width) =
     (if length data \<noteq> length msk then Inl AssertionError
      else
        case pack_HH 2 (int (length data)) of
          Inl e \<Rightarrow> Inl e
        | Inr head \<Rightarrow>
            (case Address_serialize 0 (Some 1) address of
               Inl e \<Rightarrow> Inl e
             | Inr (n, addr) \<Rightarrow> Inr (head @ addr @ data @ msk)))"

text \<open>The \<open>for\<close> loop of \<open>MemoryAccessBundle.serialize\<close>: the serialized accesses appended
  to \<open>data\<close>, up to the first one that raises.\<close>

fun serialize_accesses :: "MemoryAccess list \<Rightarrow> bytes \<Rightarrow> error + bytes" where
  "serialize_accesses [] data = Inr data"
| "serialize_accesses (access # rest) data =
     (case MemoryAccess_serialize access of
        Inl e \<Rightarrow> Inl e
      | Inr tmp \<Rightarrow> serialize_accesses rest (data @ tmp))"

definition EMU_CBMAXDATASIZE :: nat where
  "EMU_CBMAXDATASIZE = 0x3C00"

text \<open>
  \<open>MemoryAccessBundle.serialize\<close>: a zero length and the number of accesses, the accesses,
  the end marker; then \<open>struct.pack_into("<H", data, 0, len(data))\<close> overwrites the first
  two bytes with the length, which is \<open>struct.error\<close> for a length above 0xFFFF; then a
  length above \<open>_EMU_CBMAXDATASIZE\<close> raises \<open>NotImplementedError\<close>.
\<close>

definition MemoryAccessBundle_data :: "MemoryAccess list \<Rightarrow> error + bytes" where
  "MemoryAccessBundle_data access_list =
     (case pack_HH 0 (int (length access_list)) of
        Inl e \<Rightarrow> Inl e
      | Inr head \<Rightarrow>
          (case serialize_accesses access_list head of
             Inl e \<Rightarrow> Inl e
           | Inr data \<Rightarrow> Inr (data @ ascii ''XX'')))"

definition MemoryAccessBundle_serialize :: "MemoryAccess list \<Rightarrow> error + bytes" where
  "MemoryAccessBundle_serialize access_list =
     (case MemoryAccessBundle_data access_list of
        Inl e \<Rightarrow> Inl e
      | Inr data \<Rightarrow>
          if 0xFFFF < length data then Inl StructError
          else if length data > EMU_CBMAXDATASIZE then Inl NotImplementedError
          else Inr (to_bytes_le 2 (length data) @ drop 2 data))"

text \<open>The result decoders of the accesses and of the bundle. A result is the data read
  (if any) and whether the access failed. They run on a bundle that has been serialized,
  so the length of a read access is not negative.\<close>

record MemoryAccessResult =
  res_data :: "bytes option"
  res_error :: bool

fun MemoryAccess_deserialize :: "MemoryAccess \<Rightarrow> bytes \<Rightarrow> error + bytes \<times> MemoryAccessResult" where
  "MemoryAccess_deserialize (MemoryReadAccess address len width) buffer =
     (if length buffer < 2 then Inl StructError
      else if from_bytes_le (take 2 buffer) = 1 then
        Inr (drop (2 + nat len) buffer,
             \<lparr>res_data = Some (slice 2 (2 + nat len) buffer), res_error = False\<rparr>)
      else Inr (drop 2 buffer, \<lparr>res_data = None, res_error = True\<rparr>))"
| "MemoryAccess_deserialize (MemoryWriteAccess address data width) buffer =
     (if length buffer < 2 then Inl StructError
      else if from_bytes_le (take 2 buffer) = 1 then
        Inr (drop 2 buffer, \<lparr>res_data = None, res_error = False\<rparr>)
      else Inr (drop 2 buffer, \<lparr>res_data = None, res_error = True\<rparr>))"
| "MemoryAccess_deserialize (MemoryReadWriteAccess address data msk width) buffer =
     (if length buffer < 2 then Inl StructError
      else if from_bytes_le (take 2 buffer) = 1 then
        Inr (drop (2 + length data) buffer,
             \<lparr>res_data = Some (slice 2 (2 + length data) buffer), res_error = False\<rparr>)
      else Inr (drop 2 buffer, \<lparr>res_data = None, res_error = True\<rparr>))"

fun deserialize_accesses ::
  "MemoryAccess list \<Rightarrow> bytes \<Rightarrow> error + bytes \<times> MemoryAccessResult list" where
  "deserialize_accesses [] buffer = Inr (buffer, [])"
| "deserialize_accesses (access # rest) buffer =
     (case MemoryAccess_deserialize access buffer of
        Inl e \<Rightarrow> Inl e
      | Inr (buffer', result) \<Rightarrow>
          (case deserialize_accesses rest buffer' of
             Inl e \<Rightarrow> Inl e
           | Inr (buffer'', results) \<Rightarrow> Inr (buffer'', result # results)))"

definition MemoryAccessBundle_deserialize ::
  "MemoryAccess list \<Rightarrow> bytes \<Rightarrow> error + bytes \<times> MemoryAccessResult list" where
  "MemoryAccessBundle_deserialize access_list buffer =
     (case deserialize_accesses access_list buffer of
        Inl e \<Rightarrow> Inl e
      | Inr (buffer', results) \<Rightarrow>
          if take 2 buffer' \<noteq> ascii ''XX'' then Inl AssertionError
          else Inr (drop 2 buffer', results))"

text \<open>
  \<open>Library.t32_transfermemorybundleobj\<close>: serialize the bundle, send it with
  \<open>generic_api_call\<close> (command 0x74, subcommand 0x38, \<open>force_length=0\<close>) and decode the
  response. The result comes with the socket reads that are left and the link.
\<close>

definition t32_transfermemorybundleobj ::
  "MemoryAccess list \<Rightarrow> bytes list \<Rightarrow> Link
     \<Rightarrow> (error + MemoryAccessResult list) \<times> bytes list \<times> Link" where
  "t32_transfermemorybundleobj bundle incoming l =
     (case MemoryAccessBundle_serialize bundle of
        Inl e \<Rightarrow> (Inl e, incoming, l)
      | Inr tx_data \<Rightarrow>
          (case generic_api_call 0x74 0x38 False tx_data (Some 0) False incoming l of
             (Inl e, rest, l') \<Rightarrow> (Inl e, rest, l')
           | (Inr None, rest, l') \<Rightarrow> (Inl TypeError, rest, l')
           | (Inr (Some rx_data), rest, l') \<Rightarrow>
               (case MemoryAccessBundle_deserialize bundle rx_data of
                  Inl e \<Rightarrow> (Inl e, rest, l')
                | Inr (b, result) \<Rightarrow> (Inr result, rest, l'))))"

section \<open>Direct access bundles (\<open>_directaccess.py\<close>)\<close>

record DirectAccessShiftRawOptions =
  lasttms_one :: bool
  tms_one :: bool
  tdi_lasttdo :: bool
  tdi_one :: bool

text \<open>The members of the enumeration \<open>DirectAccessInfoId\<close> (a name that is an alias of
  another member is that member) and their values.\<close>

datatype DirectAccessInfoId =
    TRISTATE_UINT32
  | SWD_UNIT32
  | INSTANCE_EXISTS_UNIT32
  | XXX_DAP_INSTANCE_UINT32
  | XXX_DAPACCESSPORT_UINT32
  | XXX_SYSPOWERUPREQ_UINT32
  | XXX_BIGENDIAN_UINT32
  | XXX_AP_ADDRESS_UINT64
  | XXX_AP_BASETYPE_UINT32
  | TAP_CURRENTINSTANCE_UINT32
  | TAP_IRPRE_UINT32
  | TAP_IRPOST_UINT32
  | TAP_DRPRE_UINT32
  | TAP_DRPOST_UINT32
  | TAP_PARKSTATE_UINT32
  | TAP_MCTAPSTATE_UINT32
  | TAP_MCTCKLEVEL_UINT32
  | TAP_DAP_JTAGACCESSPORTINDEX_UINT32
  | TAP_AUTO_MULTICORETAPSTATE_UINT32
  | TAP_SELECT_SHIFT_PATTERN_UINT32

fun DirectAccessInfoId_value :: "DirectAccessInfoId \<Rightarrow> int" where
  "DirectAccessInfoId_value TRISTATE_UINT32 = 0"
| "DirectAccessInfoId_value SWD_UNIT32 = 2"
| "DirectAccessInfoId_value INSTANCE_EXISTS_UNIT32 = 3"
| "DirectAccessInfoId_value XXX_DAP_INSTANCE_UINT32 = 300"
| "DirectAccessInfoId_value XXX_DAPACCESSPORT_UINT32 = 301"
| "DirectAccessInfoId_value XXX_SYSPOWERUPREQ_UINT32 = 302"
| "DirectAccessInfoId_value XXX_BIGENDIAN_UINT32 = 303"
| "DirectAccessInfoId_value XXX_AP_ADDRESS_UINT64 = 304"
| "DirectAccessInfoId_value XXX_AP_BASETYPE_UINT32 = 305"
| "DirectAccessInfoId_value TAP_CURRENTINSTANCE_UINT32 = 100"
| "DirectAccessInfoId_value TAP_IRPRE_UINT32 = 101"
| "DirectAccessInfoId_value TAP_IRPOST_UINT32 = 102"
| "DirectAccessInfoId_value TAP_DRPRE_UINT32 = 103"
| "DirectAccessInfoId_value TAP_DRPOST_UINT32 = 104"
| "DirectAccessInfoId_value TAP_PARKSTATE_UINT32 = 105"
| "DirectAccessInfoId_value TAP_MCTAPSTATE_UINT32 = 106"
| "DirectAccessInfoId_value TAP_MCTCKLEVEL_UINT32 = 107"
| "DirectAccessInfoId_value TAP_DAP_JTAGACCESSPORTINDEX_UINT32 = 122"
| "DirectAccessInfoId_value TAP_AUTO_MULTICORETAPSTATE_UINT32 = 123"
| "DirectAccessInfoId_value TAP_SELECT_SHIFT_PATTERN_UINT32 = 124"

text \<open>What the attribute \<open>info_id\<close> of a \<open>DirectAccessGetInfo\<close> holds: a member of the
  enumeration, or a plain \<open>int\<close>, which has no attribute \<open>name\<close>.\<close>

datatype info_id_value = InfoIdMember DirectAccessInfoId | InfoIdInt int

text \<open>The three kinds of direct access with their attributes: instance type, instance
  and info id (and the value to set), or the arguments of a raw shift (\<open>num_bits\<close>, \<open>tms\<close>,
  \<open>tdi\<close>, \<open>tdo\<close>, \<open>options\<close>).\<close>

datatype DirectAccess =
    DirectAccessGetInfo int int info_id_value
  | DirectAccessSetInfo int int int int
  | DirectAccessShiftRaw int "bytes option" "bytes option" bool DirectAccessShiftRawOptions

text \<open>\<open>DirectAccess._serialize_header\<close>: the command nibble with the payload length in
  bits, in one, two or six bytes.\<close>

definition serialize_header :: "nat \<Rightarrow> nat \<Rightarrow> error + bytes" where
  "serialize_header cmd payload_bitlen =
     (if 15 < cmd then Inl StructError
      else if payload_bitlen < 0x0F then Inr [of_nat (cmd * 16 + payload_bitlen)]
      else if payload_bitlen < 0xFF then Inr [of_nat (cmd * 16 + 15), of_nat payload_bitlen]
      else if 2 ^ 32 \<le> payload_bitlen then Inl StructError
      else Inr ([of_nat (cmd * 16 + 15), 0xFF] @ to_bytes_le 4 payload_bitlen))"

text \<open>\<open>struct.pack("<BHH", instance_type, instance, info_id)\<close>.\<close>

definition pack_BHH :: "int \<Rightarrow> int \<Rightarrow> int \<Rightarrow> error + bytes" where
  "pack_BHH a b c =
     (if a < 0 \<or> 0xFF < a \<or> b < 0 \<or> 0xFFFF < b \<or> c < 0 \<or> 0xFFFF < c then Inl StructError
      else Inr (to_bytes_le 1 (nat a) @ to_bytes_le 2 (nat b) @ to_bytes_le 2 (nat c)))"

text \<open>A byte string is true in a condition when it is neither \<open>None\<close> nor empty.\<close>

definition truthy :: "bytes option \<Rightarrow> bool" where
  "truthy b = (case b of None \<Rightarrow> False | Some bs \<Rightarrow> bs \<noteq> [])"

definition shift_raw_option_bits ::
  "bytes option \<Rightarrow> bytes option \<Rightarrow> bool \<Rightarrow> DirectAccessShiftRawOptions \<Rightarrow> nat" where
  "shift_raw_option_bits tms tdi tdo options =
     (if truthy tms then 0x0001 else 0) + (if truthy tdi then 0x0002 else 0)
     + (if tdo then 0x0004 else 0) + (if lasttms_one options then 0x0008 else 0)
     + (if tms_one options then 0x0010 else 0) + (if tdi_lasttdo options then 0x0020 else 0)
     + (if tdi_one options then 0x0040 else 0)"

text \<open>\<open>DirectAccessShiftRaw._serialize_payload\<close>; \<open>num_bits.to_bytes(4, "little")\<close> raises
  \<open>OverflowError\<close> for a negative or too large number.\<close>

definition serialize_payload ::
  "int \<Rightarrow> bytes option \<Rightarrow> bytes option \<Rightarrow> bool \<Rightarrow> DirectAccessShiftRawOptions \<Rightarrow> error + bytes" where
  "serialize_payload num_bits tms tdi tdo options =
     (if num_bits < 0 \<or> 2 ^ 32 \<le> num_bits then Inl OverflowError
      else Inr ([0x90, 0x00] @ to_bytes_le 2 (shift_raw_option_bits tms tdi tdo options)
                @ to_bytes_le 4 (nat num_bits)
                @ (if truthy tms then the tms else [])
                @ (if truthy tdi then the tdi else [])
                @ (if tms = None \<and> tdi = None \<and> tdo
                   then replicate ((nat num_bits + 7) div 8) 0 else [])))"

text \<open>The \<open>_serialize\<close> methods. \<open>DirectAccessGetInfo._serialize\<close> first prints
  \<open>self.info_id.name\<close>, which raises \<open>AttributeError\<close> when \<open>info_id\<close> is a plain \<open>int\<close>.\<close>

fun DirectAccess_serialize :: "DirectAccess \<Rightarrow> error + bytes" where
  "DirectAccess_serialize (DirectAccessGetInfo instance_type instance info_id) =
     (case info_id of
        InfoIdInt i \<Rightarrow> Inl AttributeError
      | InfoIdMember member \<Rightarrow>
          (case pack_BHH instance_type instance (DirectAccessInfoId_value member) of
             Inl e \<Rightarrow> Inl e
           | Inr packed \<Rightarrow>
               (case serialize_header 3 (length ([0xFF, 0xFF, 0xFF, 0xFF] @ packed) * 8) of
                  Inl e \<Rightarrow> Inl e
                | Inr header \<Rightarrow> Inr (header @ [0xFF, 0xFF, 0xFF, 0xFF] @ packed))))"
| "DirectAccess_serialize (DirectAccessSetInfo instance_type instance info_id v) =
     (case pack_BHH instance_type instance info_id of
        Inl e \<Rightarrow> Inl e
      | Inr packed \<Rightarrow>
          if v < 0 \<or> 2 ^ 32 \<le> v then Inl StructError
          else
            case serialize_header 2
                   (length ([0xFF, 0xFF, 0xFF, 0xFF] @ packed @ to_bytes_le 4 (nat v)) * 8) of
              Inl e \<Rightarrow> Inl e
            | Inr header \<Rightarrow>
                Inr (header @ [0xFF, 0xFF, 0xFF, 0xFF] @ packed @ to_bytes_le 4 (nat v)))"
| "DirectAccess_serialize (DirectAccessShiftRaw num_bits tms tdi tdo options) =
     (case serialize_payload num_bits tms tdi tdo options of
        Inl e \<Rightarrow> Inl e
      | Inr payload \<Rightarrow>
          (case serialize_header (if tdo then 15 else 14) (length payload * 8) of
             Inl e \<Rightarrow> Inl e
           | Inr header \<Rightarrow> Inr (header @ payload)))"

text \<open>A wire request: the accesses it carries and its payload.\<close>

record DirectAccessBundleRequest =
  req_access_list :: "DirectAccess list"
  req_payload :: bytes

definition empty_request :: DirectAccessBundleRequest where
  "empty_request = \<lparr>req_access_list = [], req_payload = []\<rparr>"

definition add_access :: "DirectAccess \<Rightarrow> bytes \<Rightarrow> DirectAccessBundleRequest \<Rightarrow> DirectAccessBundleRequest" where
  "add_access access buffer request =
     request\<lparr>req_access_list := req_access_list request @ [access],
             req_payload := req_payload request @ buffer\<rparr>"

text \<open>
  The generator \<open>DirectAccessBundle._get_requests\<close>, from the accesses not yet visited and
  the request under construction: the requests it yields, in order, and the exception
  that ends it, if any. An access that is too large alone raises \<open>DirectAccessError\<close>; an
  access that does not fit into the current request closes it with the hold flag 0x01
  and starts a new one. The last request gets the release flag 0x00 or the hold flag.
\<close>

fun get_requests_from ::
  "bool \<Rightarrow> DirectAccess list \<Rightarrow> DirectAccessBundleRequest
     \<Rightarrow> DirectAccessBundleRequest list \<times> error option" where
  "get_requests_from release_debug_port [] request =
     ([request\<lparr>req_payload := req_payload request @ [if release_debug_port then 0x00 else 0x01]\<rparr>],
      None)"
| "get_requests_from release_debug_port (access # rest) request =
     (case DirectAccess_serialize access of
        Inl e \<Rightarrow> ([], Some e)
      | Inr tmp \<Rightarrow>
          if length tmp > EMU_CBMAXDATASIZE - 1 then ([], Some DirectAccessError)
          else if length (req_payload request) + length tmp > EMU_CBMAXDATASIZE - 1 then
            (case get_requests_from release_debug_port rest (add_access access tmp empty_request) of
               (requests, err) \<Rightarrow>
                 (request\<lparr>req_payload := req_payload request @ [0x01]\<rparr> # requests, err))
          else get_requests_from release_debug_port rest (add_access access tmp request))"

definition DirectAccessBundle_get_requests ::
  "bool \<Rightarrow> DirectAccess list \<Rightarrow> DirectAccessBundleRequest list \<times> error option" where
  "DirectAccessBundle_get_requests release_debug_port access_list =
     get_requests_from release_debug_port access_list empty_request"

section \<open>Predicates and examples used by the properties\<close>

text \<open>A queued message that \<open>receive\<close> compares with the expected id: it has an id
  byte and is no keepalive message. An entry that \<open>receive\<close> skips: an empty message, a
  keepalive message (first byte 0xFE) whatever follows its first byte, or a message with
  a lower id byte.\<close>

definition response_message :: "bytes \<Rightarrow> bool" where
  "response_message m = (2 \<le> length m \<and> m ! 0 \<noteq> 0xFE)"

definition skipped_entry :: "int \<Rightarrow> bytes option \<Rightarrow> bool" where
  "skipped_entry message_id e =
     (case e of
        None \<Rightarrow> False
      | Some m \<Rightarrow>
          m = [] \<or> m ! 0 = 0xFE \<or> (response_message m \<and> uint (m ! 1) < message_id))"

text \<open>A link over a connected TCP transport, before the first request.\<close>

definition example_link :: Link where
  "example_link =
     \<lparr>link_node = ''localhost'', link_port = 20000, link_packlen = 1024,
      link_protocol = ''TCP'', link_timeout = None, link_message_id = 0,
      link_line = CommunicationBase_init TCP 0x4000 None\<lparr>comm_connected := True\<rparr>\<rparr>"

text \<open>An address without access class and a write access of 0x3C00 zero bytes to it.\<close>

definition example_address :: Address where
  "example_address = \<lparr>addr_access = None, addr_value = Some 0x1000\<rparr>"

definition example_write :: MemoryAccess where
  "example_write = MemoryWriteAccess example_address (replicate 0x3C00 0) None"

text \<open>An access fits when it serializes to at most \<open>_EMU_CBMAXDATASIZE - 1\<close> bytes;
  \<open>serialized\<close> is its serialized form and \<open>total_size\<close> the size of all of them.\<close>

definition fits :: "DirectAccess \<Rightarrow> bool" where
  "fits access =
     (case DirectAccess_serialize access of
        Inl e \<Rightarrow> False
      | Inr tmp \<Rightarrow> length tmp \<le> EMU_CBMAXDATASIZE - 1)"

definition serialized :: "DirectAccess \<Rightarrow> bytes" where
  "serialized access = (case DirectAccess_serialize access of Inl e \<Rightarrow> [] | Inr tmp \<Rightarrow> tmp)"

text \<open>The requests are closed only when full: the payload of each request but the last,
  without its flag byte, and the first access of the request after it are together
  longer than \<open>_EMU_CBMAXDATASIZE - 1\<close> bytes. \<open>carries_accesses\<close> says that the payload of
  a request is the serialized form of its accesses followed by one flag byte.\<close>

fun closed_when_full :: "DirectAccessBundleRequest list \<Rightarrow> bool" where
  "closed_when_full (r # r' # rs) =
     (req_access_list r' \<noteq> []
      \<and> length (butlast (req_payload r)) + length (serialized (hd (req_access_list r')))
          > EMU_CBMAXDATASIZE - 1
      \<and> closed_when_full (r' # rs))"
| "closed_when_full rs = True"

definition carries_accesses :: "DirectAccessBundleRequest \<Rightarrow> bool" where
  "carries_accesses r =
     (req_payload r \<noteq> []
      \<and> butlast (req_payload r) = concat (map serialized (req_access_list r)))"

definition total_size :: "DirectAccess list \<Rightarrow> nat" where
  "total_size access_list = sum_list (map (\<lambda>a. length (serialized a)) access_list)"

text \<open>A raw shift of 64000 bits with a TMS pattern of 8000 bytes.\<close>

definition example_shift :: DirectAccess where
  "example_shift =
     DirectAccessShiftRaw 64000 (Some (replicate 8000 0x55)) None False
       \<lparr>lasttms_one = False, tms_one = False, tdi_lasttdo = False, tdi_one = False\<rparr>"


















section \<open>Properties\<close>

subsection \<open>Little-endian integers and slices\<close>

lemma length_to_bytes_le [simp]: "length (to_bytes_le k n) = k"
  by (induction k arbitrary: n) simp_all

lemma to_bytes_le_numeral [simp]:
  "to_bytes_le (numeral k) n = of_nat (n mod 256) # to_bytes_le (pred_numeral k) (n div 256)"
proof -
  have "to_bytes_le (Suc (pred_numeral k)) n
          = of_nat (n mod 256) # to_bytes_le (pred_numeral k) (n div 256)"
    by (rule to_bytes_le.simps)
  then show ?thesis by (simp only: numeral_eq_Suc [symmetric])
qed


lemma from_bytes_le_bound: "from_bytes_le bs < 256 ^ length bs"
proof (induction bs)
  case Nil
  show ?case by simp
next
  case (Cons b bs)
  have "unat b < 256" using unsigned_less [of b, where ?'a = nat] by simp
  with Cons show ?case by simp
qed

lemma slice_0 [simp]: "slice 0 n xs = take n xs"
  by (simp add: slice_def)

subsection \<open>Register equality\<close>

lemma Register_eq_iff:
  "Register_eq a (RegisterObj b) =
     EqBool (reg_core a = reg_core b \<and> reg_name a = reg_name b \<and> reg_value a = reg_value b)"
  by simp

text \<open>
  Claim C10. \<open>Register.__eq__\<close> compares only \<open>core\<close>, \<open>name\<close> and \<open>value\<close>: the result on two
  registers is exactly the conjunction of these three equalities, so two registers that
  agree on them compare equal whatever their \<open>fvalue\<close> and \<open>unit\<close> are.
\<close>

theorem Register_eq_ignores_fvalue_unit:
  "Register_eq a (RegisterObj b) =
     EqBool (reg_core a = reg_core b \<and> reg_name a = reg_name b \<and> reg_value a = reg_value b)
   \<and> (reg_core a = reg_core b \<and> reg_name a = reg_name b \<and> reg_value a = reg_value b
      \<longrightarrow> Register_eq (a\<lparr>reg_fvalue := f, reg_unit := u\<rparr>)
            (RegisterObj (b\<lparr>reg_fvalue := f', reg_unit := u'\<rparr>)) = EqBool True)"
  by simp

theorem Register_eq_ignores_fvalue_unit_witness:
  "Register_eq
     \<lparr>reg_core = Some 0, reg_name = Some (text_of ''R0''), reg_unit = Some (text_of ''CPU''),
      reg_value = None, reg_fvalue = Some 0x3FF0000000000000\<rparr>
     (RegisterObj
       \<lparr>reg_core = Some 0, reg_name = Some (text_of ''R0''), reg_unit = Some (text_of ''FPU''),
        reg_value = None, reg_fvalue = Some 0x4000000000000000\<rparr>) = EqBool True"
  using Register_eq_ignores_fvalue_unit
    [where a = "\<lparr>reg_core = Some 0, reg_name = Some (text_of ''R0''), reg_unit = None,
          reg_value = None, reg_fvalue = None\<rparr>"
       and b = "\<lparr>reg_core = Some 0, reg_name = Some (text_of ''R0''), reg_unit = None,
          reg_value = None, reg_fvalue = None\<rparr>"
       and f = "Some 0x3FF0000000000000" and u = "Some (text_of ''CPU'')"
       and f' = "Some 0x4000000000000000" and u' = "Some (text_of ''FPU'')"]
  by simp

subsection \<open>The packet length of a link\<close>

lemma CommunicationTcp_connect_packlen:
  "CommunicationTcp_connect env c = Inr c' \<Longrightarrow>
     comm_packlen c' = comm_packlen c \<and> comm_transport c' = comm_transport c"
  by (auto simp: CommunicationTcp_connect_def split: if_splits)

lemma CommunicationUdp_connect_packlen:
  "CommunicationUdp_connect env port c = Inr c' \<Longrightarrow> \<not> comm_connected c \<Longrightarrow>
     comm_packlen c' = min (env_rcvbuf env) (comm_packlen c) \<and> comm_transport c' = comm_transport c"
  by (auto simp: CommunicationUdp_connect_def Let_def
           split: if_splits sum.splits option.splits list.splits)

text \<open>
  Claim C9. A link built for protocol \<open>"TCP"\<close> has a TCP transport whose packet length is
  0x4000 whatever \<open>packlen\<close> the caller passed: two constructions that differ only in
  \<open>packlen\<close> produce the same transport. For protocol \<open>"UDP"\<close> the transport is created with
  the configured \<open>packlen\<close>, which \<open>connect\<close> then caps by the socket's receive buffer size.
\<close>

theorem Link_tcp_packlen_fixed:
  "(Link_init env node port packlen ''TCP'' timeout = Inr l \<longrightarrow>
      comm_transport (link_line l) = TCP \<and> comm_packlen (link_line l) = 0x4000
      \<and> map_sum id link_line (Link_init env node port packlen' ''TCP'' timeout)
          = Inr (link_line l))
   \<and> (Link_init env node port packlen ''UDP'' timeout = Inr l \<longrightarrow>
      comm_transport (link_line l) = UDP
      \<and> comm_packlen (link_line l) = min (env_rcvbuf env) packlen)"
proof (intro conjI impI)
  assume a: "Link_init env node port packlen ''TCP'' timeout = Inr l"
  then obtain c where c: "CommunicationTcp_connect env (CommunicationBase_init TCP 0x4000 timeout) = Inr c"
    and l: "link_line l = c"
    by (auto simp: Link_init_def Let_def split: sum.splits)
  from CommunicationTcp_connect_packlen [OF c] l
  show "comm_transport (link_line l) = TCP" and "comm_packlen (link_line l) = 0x4000"
    by (simp_all add: CommunicationBase_init_def)
  show "map_sum id link_line (Link_init env node port packlen' ''TCP'' timeout) = Inr (link_line l)"
    using c l by (simp add: Link_init_def Let_def)
next
  assume a: "Link_init env node port packlen ''UDP'' timeout = Inr l"
  then obtain c where c: "CommunicationUdp_connect env port (CommunicationBase_init UDP packlen timeout) = Inr c"
    and l: "link_line l = c"
    by (auto simp: Link_init_def Let_def split: sum.splits)
  have "\<not> comm_connected (CommunicationBase_init UDP packlen timeout)"
    by (simp add: CommunicationBase_init_def)
  from CommunicationUdp_connect_packlen [OF c this] l
  show "comm_transport (link_line l) = UDP"
    and "comm_packlen (link_line l) = min (env_rcvbuf env) packlen"
    by (simp_all add: CommunicationBase_init_def)
qed

theorem Link_tcp_packlen_fixed_witness:
  "Link_init \<lparr>env_socket_ok = True, env_rcvbuf = 0x4000, env_local_port = 50000,
              env_reply = None\<rparr> ''localhost'' 20000 1024 ''TCP'' None
     = Inr \<lparr>link_node = ''localhost'', link_port = 20000, link_packlen = 1024,
            link_protocol = ''TCP'', link_timeout = None, link_message_id = 0,
            link_line = (CommunicationBase_init TCP 0x4000 None)\<lparr>comm_connected := True\<rparr>\<rparr>
   \<and> comm_packlen (CommunicationBase_init TCP 0x4000 None\<lparr>comm_connected := True\<rparr>) = 0x4000
   \<and> map_sum id link_line
        (Link_init \<lparr>env_socket_ok = True, env_rcvbuf = 0x4000, env_local_port = 50000,
                    env_reply = None\<rparr> ''localhost'' 20000 7 ''TCP'' None)
       = Inr (CommunicationBase_init TCP 0x4000 None\<lparr>comm_connected := True\<rparr>)"
proof -
  let ?env = "\<lparr>env_socket_ok = True, env_rcvbuf = 0x4000, env_local_port = 50000,
               env_reply = None\<rparr>"
  let ?l = "\<lparr>link_node = ''localhost'', link_port = 20000, link_packlen = 1024,
            link_protocol = ''TCP'', link_timeout = None, link_message_id = 0,
            link_line = (CommunicationBase_init TCP 0x4000 None)\<lparr>comm_connected := True\<rparr>\<rparr>"
  have h: "Link_init ?env ''localhost'' 20000 1024 ''TCP'' None = Inr ?l"
    by (simp add: Link_init_def CommunicationTcp_connect_def CommunicationBase_init_def)
  from Link_tcp_packlen_fixed
    [where env = ?env and node = "''localhost''" and port = 20000 and packlen = 1024
       and timeout = None and l = ?l and packlen' = 7]
  show ?thesis using h by simp
qed

subsection \<open>Mutual exclusion of \<open>value\<close> and \<open>fvalue\<close>\<close>

lemma assign_at_most_one:
  "at_most_one_value r \<Longrightarrow> assign a r = Inr r' \<Longrightarrow> at_most_one_value r'"
proof (cases a)
  case (AssignValue v)
  assume "at_most_one_value r" "assign a r = Inr r'"
  with AssignValue show ?thesis
    by (cases v) (auto simp: at_most_one_value_def)
next
  case (AssignFvalue v)
  assume "at_most_one_value r" "assign a r = Inr r'"
  with AssignFvalue show ?thesis
    by (cases v) (auto simp: at_most_one_value_def)
qed

lemma assign_all_at_most_one:
  "at_most_one_value r \<Longrightarrow> at_most_one_value (assign_all as r)"
proof (induction as arbitrary: r)
  case Nil
  then show ?case by simp
next
  case (Cons a as)
  show ?case
  proof (cases "assign a r")
    case (Inl e)
    with Cons show ?thesis by simp
  next
    case (Inr r')
    with Cons assign_at_most_one [of r a r'] show ?thesis by simp
  qed
qed

lemma Register_init_at_most_one:
  "Register_init core name val unit fval = Inr r \<Longrightarrow> at_most_one_value r"
  by (cases val; cases fval) (auto simp: Register_init_def at_most_one_value_def)

text \<open>
  Claim C7. Assigning an \<open>int\<close> to \<open>value\<close> stores it and leaves \<open>fvalue\<close> \<open>None\<close>; assigning
  a \<open>float\<close> to \<open>fvalue\<close> stores it and leaves \<open>value\<close> \<open>None\<close>; and after any sequence of
  assignments to the two attributes of a constructed register (whatever is assigned, in
  whatever order) at most one of \<open>value\<close> and \<open>fvalue\<close> is not \<open>None\<close>.
\<close>

theorem Register_value_fvalue_exclusive:
  "Register_set_value (PInt v) r = Inr (r\<lparr>reg_value := Some v, reg_fvalue := None\<rparr>)
   \<and> Register_set_fvalue (PFloat f) r = Inr (r\<lparr>reg_fvalue := Some f, reg_value := None\<rparr>)
   \<and> (Register_init core name val unit fval = Inr r0 \<longrightarrow>
        at_most_one_value (assign_all as r0))"
  by (simp add: assign_all_at_most_one Register_init_at_most_one)

theorem Register_value_fvalue_exclusive_witness:
  "Register_init None (Some (text_of ''R0'')) (PInt 5) None PNone
     = Inr \<lparr>reg_core = None, reg_name = Some (text_of ''R0''), reg_unit = None,
            reg_value = Some 5, reg_fvalue = None\<rparr>
   \<and> at_most_one_value
        (assign_all [AssignFvalue (PFloat 0x3FF0000000000000), AssignValue (PStr []),
                     AssignValue (PInt 7), AssignFvalue (PFloat 0)]
           \<lparr>reg_core = None, reg_name = Some (text_of ''R0''), reg_unit = None,
            reg_value = Some 5, reg_fvalue = None\<rparr>)"
proof -
  let ?r = "\<lparr>reg_core = None, reg_name = Some (text_of ''R0''), reg_unit = None,
            reg_value = Some 5, reg_fvalue = None\<rparr>"
  have h: "Register_init None (Some (text_of ''R0'')) (PInt 5) None PNone = Inr ?r"
    by (simp add: Register_init_def)
  from Register_value_fvalue_exclusive
    [where core = None and name = "Some (text_of ''R0'')" and val = "PInt 5" and unit = None
       and fval = PNone and ?r0.0 = ?r
       and as = "[AssignFvalue (PFloat 0x3FF0000000000000), AssignValue (PStr []),
                     AssignValue (PInt 7), AssignFvalue (PFloat 0)]"]
  show ?thesis using h by (simp del: assign_all.simps)
qed

subsection \<open>Matching a response to the expected message id\<close>

lemma receive_Some:
  assumes "comm_response_queue c = Some m # queue" and "response_message m"
  shows "receive message_id incoming c =
           (if uint (m ! 1) < message_id
            then receive message_id incoming (c\<lparr>comm_response_queue := queue\<rparr>)
            else if uint (m ! 1) = message_id
            then (Inr m, incoming, c\<lparr>comm_response_queue := queue\<rparr>)
            else (Inl ConnectionError, incoming, c\<lparr>comm_response_queue := queue\<rparr>))"
proof -
  from assms(2) have "m \<noteq> []" "m ! 0 \<noteq> 0xFE" "\<not> length m < 2"
    by (auto simp: response_message_def)
  with assms(1) show ?thesis
    by (subst receive.simps) simp
qed

lemma receive_skips_one:
  assumes "comm_response_queue c = e # queue" and "skipped_entry message_id e"
  shows "receive message_id incoming c
           = receive message_id incoming (c\<lparr>comm_response_queue := queue\<rparr>)"
proof -
  from assms(2) obtain m where e: "e = Some m"
    and m: "m = [] \<or> m ! 0 = 0xFE \<or> (response_message m \<and> uint (m ! 1) < message_id)"
    by (auto simp: skipped_entry_def split: option.splits)
  from m consider "m = []" | "m \<noteq> []" "m ! 0 = 0xFE"
    | "response_message m" "uint (m ! 1) < message_id"
    by blast
  then show ?thesis
  proof cases
    case 1
    with assms(1) e show ?thesis by (subst receive.simps) simp
  next
    case 2
    with assms(1) e show ?thesis by (subst receive.simps) simp
  next
    case 3
    from assms(1) e have q: "comm_response_queue c = Some m # queue" by simp
    from receive_Some [OF q 3(1)] 3(2) show ?thesis by simp
  qed
qed

lemma receive_skips:
  assumes "list_all (skipped_entry message_id) skipped"
    and "comm_response_queue c = skipped @ queue"
  shows "receive message_id incoming c
           = receive message_id incoming (c\<lparr>comm_response_queue := queue\<rparr>)"
  using assms
proof (induction skipped arbitrary: c)
  case Nil
  then have "c\<lparr>comm_response_queue := queue\<rparr> = c" by simp
  then show ?case by simp
next
  case (Cons e skipped)
  from Cons.prems(1) have se: "skipped_entry message_id e"
    and rest: "list_all (skipped_entry message_id) skipped"
    by simp_all
  from Cons.prems(2) have q: "comm_response_queue c = e # (skipped @ queue)" by simp
  have "receive message_id incoming c
          = receive message_id incoming (c\<lparr>comm_response_queue := skipped @ queue\<rparr>)"
    by (rule receive_skips_one [OF q se])
  also have "\<dots> = receive message_id incoming
                     (c\<lparr>comm_response_queue := skipped @ queue\<rparr>\<lparr>comm_response_queue := queue\<rparr>)"
    by (rule Cons.IH [OF rest]) simp
  finally show ?case by simp
qed

text \<open>
  Claim C3, as the code has it. \<open>receive\<close> skips every queued entry that is an empty
  message, a keepalive message (first byte 0xFE, whatever its id byte) or a message of
  at least two bytes whose id byte is lower than the expected id. The first entry after
  them, when it is a message of at least two bytes that is no keepalive message, decides
  the call: it is returned when its id byte equals the expected id, and \<open>ConnectionError\<close>
  is raised when its id byte is greater; in both cases it is taken from the queue and
  what follows it stays queued. For the ids 3, 3, 4, 6 and the expected id 4 the call
  returns the first message with id 4 and leaves the message with id 6 in the queue,
  where the next call for id 4 raises \<open>ConnectionError\<close>.
\<close>

theorem receive_by_message_id:
  assumes "list_all (skipped_entry message_id) skipped" and "response_message m"
    and "\<not> uint (m ! 1) < message_id"
    and "comm_response_queue c = skipped @ Some m # queue"
  shows "receive message_id incoming c =
           (if uint (m ! 1) = message_id
            then (Inr m, incoming, c\<lparr>comm_response_queue := queue\<rparr>)
            else (Inl ConnectionError, incoming, c\<lparr>comm_response_queue := queue\<rparr>))"
proof -
  have "receive message_id incoming c
          = receive message_id incoming (c\<lparr>comm_response_queue := Some m # queue\<rparr>)"
    by (rule receive_skips [OF assms(1) assms(4)])
  also have "\<dots> = (if uint (m ! 1) = message_id
            then (Inr m, incoming, c\<lparr>comm_response_queue := queue\<rparr>)
            else (Inl ConnectionError, incoming, c\<lparr>comm_response_queue := queue\<rparr>))"
    using receive_Some [of "c\<lparr>comm_response_queue := Some m # queue\<rparr>" m queue message_id incoming]
      assms(2,3) by simp
  finally show ?thesis .
qed

theorem receive_by_message_id_witness:
  "receive 4 []
     (CommunicationBase_init UDP 1024 None
        \<lparr>comm_response_queue := [Some [0, 3, 0x11], Some [], Some [0xFE, 9], Some [0, 3, 0x22],
                                 Some [0, 4, 0x33], Some [0, 6, 0x44]]\<rparr>)
     = (Inr [0, 4, 0x33], [],
        CommunicationBase_init UDP 1024 None\<lparr>comm_response_queue := [Some [0, 6, 0x44]]\<rparr>)
   \<and> receive 4 []
       (CommunicationBase_init UDP 1024 None\<lparr>comm_response_queue := [Some [0, 6, 0x44]]\<rparr>)
     = (Inl ConnectionError, [],
        CommunicationBase_init UDP 1024 None\<lparr>comm_response_queue := []\<rparr>)"
proof -
  let ?c = "CommunicationBase_init UDP 1024 None"
  have s: "list_all (skipped_entry 4)
             [Some [0, 3, 0x11], Some [], Some [0xFE, 9], Some [0, 3, 0x22]]"
    by (simp add: skipped_entry_def response_message_def)
  have m4: "response_message [0, 4, 0x33]" and m6: "response_message [0, 6, 0x44]"
    by (simp_all add: response_message_def)
  have a: "receive 4 []
     (?c\<lparr>comm_response_queue := [Some [0, 3, 0x11], Some [], Some [0xFE, 9], Some [0, 3, 0x22],
                                 Some [0, 4, 0x33], Some [0, 6, 0x44]]\<rparr>)
     = (Inr [0, 4, 0x33], [], ?c\<lparr>comm_response_queue := [Some [0, 6, 0x44]]\<rparr>)"
    using receive_by_message_id [OF s m4, where queue = "[Some [0, 6, 0x44]]" and incoming = "[]"
        and c = "?c\<lparr>comm_response_queue := [Some [0, 3, 0x11], Some [], Some [0xFE, 9],
                                            Some [0, 3, 0x22], Some [0, 4, 0x33],
                                            Some [0, 6, 0x44]]\<rparr>"]
    by simp
  have b: "receive 4 [] (?c\<lparr>comm_response_queue := [Some [0, 6, 0x44]]\<rparr>)
     = (Inl ConnectionError, [], ?c\<lparr>comm_response_queue := []\<rparr>)"
    using receive_by_message_id [OF _ m6, where message_id = 4 and skipped = "[]"
        and queue = "[]" and incoming = "[]"
        and c = "?c\<lparr>comm_response_queue := [Some [0, 6, 0x44]]\<rparr>"]
    by simp
  from a b show ?thesis by simp
qed

text \<open>
  The claim as the specification states it, for every queued message, does not hold: a
  keepalive message is skipped whatever its id byte. Here the first queued message has
  the id byte 6, greater than the expected id 4, and the call raises nothing but returns
  the message that follows it; and a first queued message whose id byte equals the
  expected id is not returned, because it is a keepalive message: the call returns the
  message after it.
\<close>

theorem receive_keepalive_counterexample:
  "uint ([0xFE, 6 :: byte] ! 1) > 4
   \<and> fst (receive 4 []
        (CommunicationBase_init UDP 1024 None
           \<lparr>comm_response_queue := [Some [0xFE, 6], Some [0, 4]]\<rparr>)) = Inr [0, 4]
   \<and> uint ([0xFE, 4, 1 :: byte] ! 1) = 4
   \<and> fst (receive 4 []
        (CommunicationBase_init UDP 1024 None
           \<lparr>comm_response_queue := [Some [0xFE, 4, 1], Some [0, 4, 2]]\<rparr>)) = Inr [0, 4, 2]"
  by (simp add: receive.simps CommunicationBase_init_def)

subsection \<open>The attempt budget of the UDP sync exchange\<close>

lemma sync_attempts_syncback:
  "attempt < maxTries \<Longrightarrow>
   sync_attempts attempt maxTries (sync_packet 0x05 b # rest) c = sync (maxTries - attempt) rest c"
  by (simp add: sync_attempts.simps sync_packet_def MAGIC_PATTERN_def ascii_def)

lemma sync_attempts_ack:
  "attempt < maxTries \<Longrightarrow>
   sync_attempts attempt maxTries [sync_packet 0x12 b] c
     = (Inr False, [], c\<lparr>comm_receive_block_id := from_bytes_le (slice 2 4 (sync_packet 0x12 b))\<rparr>)"
  by (simp add: sync_attempts.simps sync_packet_def MAGIC_PATTERN_def ascii_def)

lemma sync_one_try_unbounded:
  "comm_connected c \<Longrightarrow> comm_transmit_block_id c \<le> 65535 \<Longrightarrow>
   \<exists>c'. sync 1 (replicate k (sync_packet 0x05 b) @ [sync_packet 0x12 b]) c = (Inr True, [], c')
        \<and> length (comm_sent c') = length (comm_sent c) + k + 2"
proof (induction k arbitrary: c)
  case 0
  then show ?case
    by (subst sync.simps) (simp add: sync_attempts_ack)
next
  case (Suc k)
  let ?c1 = "c\<lparr>comm_sent := comm_sent c @ [sync_packet 0x02 (comm_transmit_block_id c)]\<rparr>"
  from Suc.prems have "comm_connected ?c1" "comm_transmit_block_id ?c1 \<le> 65535"
    by simp_all
  from Suc.IH [OF this] obtain c' where
    c': "sync 1 (replicate k (sync_packet 0x05 b) @ [sync_packet 0x12 b]) ?c1 = (Inr True, [], c')"
    and len: "length (comm_sent c') = length (comm_sent ?c1) + k + 2"
    by blast
  have "sync 1 (replicate (Suc k) (sync_packet 0x05 b) @ [sync_packet 0x12 b]) c = (Inr True, [], c')"
    using Suc.prems c'
    by (subst sync.simps) (simp add: sync_attempts_syncback)
  with len show ?case by simp
qed

text \<open>
  Claim C8 fails on the code. With \<open>maxTries = 1\<close> and a peer that answers the first \<open>k\<close>
  sync requests with a sync-back request and the next one with a sync acknowledge, the
  exchange reads all \<open>k + 1\<close> datagrams and sends \<open>k + 1\<close> sync requests before it
  succeeds, for every \<open>k\<close>: the recursive call gets \<open>maxTries - attempt\<close> with
  \<open>attempt = 0\<close> at the first read, which is the whole budget again.
\<close>

theorem sync_budget_not_consumed:
  "\<forall>k. \<exists>c'. sync 1 (replicate k (sync_packet 0x05 0) @ [sync_packet 0x12 0])
                 (CommunicationBase_init UDP 1024 None\<lparr>comm_connected := True\<rparr>)
               = (Inr True, [], c')
             \<and> length (comm_sent c') = k + 2"
proof
  fix k
  let ?c = "CommunicationBase_init UDP 1024 None\<lparr>comm_connected := True\<rparr>"
  have "comm_connected ?c" "comm_transmit_block_id ?c \<le> 65535" "length (comm_sent ?c) = 0"
    by (simp_all add: CommunicationBase_init_def)
  with sync_one_try_unbounded [of ?c k 0]
  show "\<exists>c'. sync 1 (replicate k (sync_packet 0x05 0) @ [sync_packet 0x12 0]) ?c = (Inr True, [], c')
             \<and> length (comm_sent c') = k + 2"
    by simp
qed

subsection \<open>Reassembly of a TCP frame from two socket reads\<close>

text \<open>
  Claim C2 fails on the code for a split inside the eight-byte header. The frame of the
  two-byte response payload AA BB is sixteen bytes long. Read in one piece it puts the
  payload into the response queue and leaves the buffer empty. Read as its first four
  bytes followed by the other twelve, the first read is thrown away (fewer than eight
  bytes are buffered), the second read is taken for the start of a frame with a payload
  of 17 bytes, and nothing is dispatched.
\<close>

theorem tcp_split_in_header_loses_frame:
  "tcp_frame 0x11 [0xAA, 0xBB]
     = [2, 0, 0, 0, 0x11, 0, 0, 0, 0xAA, 0xBB, 0, 0, 0, 0, 0, 0]
   \<and> tcp_feed [tcp_frame 0x11 [0xAA, 0xBB]]
        (CommunicationBase_init TCP 0x4000 None\<lparr>comm_connected := True\<rparr>)
     = (CommunicationBase_init TCP 0x4000 None
          \<lparr>comm_connected := True, comm_response_queue := [Some [0xAA, 0xBB]]\<rparr>, None)
   \<and> tcp_feed [take 4 (tcp_frame 0x11 [0xAA, 0xBB]), drop 4 (tcp_frame 0x11 [0xAA, 0xBB])]
        (CommunicationBase_init TCP 0x4000 None\<lparr>comm_connected := True\<rparr>)
     = (CommunicationBase_init TCP 0x4000 None
          \<lparr>comm_connected := True,
           comm_socket_content := [0x11, 0, 0, 0, 0xAA, 0xBB, 0, 0, 0, 0, 0, 0]\<rparr>, None)"
  by code_simp

subsection \<open>The envelope of a request\<close>

lemma envelope_compact:
  assumes "0 \<le> cmd" "cmd \<le> 255" "0 \<le> sub" "sub \<le> 255" "mid \<le> 255"
    and "length payload + 2 \<le> 0xFF"
  shows "envelope cmd sub mid payload None False
           = Inr ([of_nat (length payload + 2), of_int cmd, of_int sub, of_nat mid]
                  @ payload @ replicate (length payload mod 2) 0)"
  using assms by (simp add: envelope_def Let_def)

lemma envelope_extended:
  assumes "0 \<le> cmd" "cmd \<le> 255" "0 \<le> sub" "sub \<le> 255" "mid \<le> 255"
    and "force_16bit_length \<or> 0xFF < length payload + 2"
    and "length payload + 4 \<le> 0xF000"
  shows "envelope cmd sub mid payload None force_16bit_length
           = Inr ([0, of_int cmd, of_int sub, of_nat mid]
                  @ to_bytes_le 2 (length payload + 4)
                  @ payload @ replicate (length payload mod 2) 0)"
proof -
  have "nat (4 + int (length payload)) = length payload + 4" by simp
  with assms show ?thesis
    by (auto simp: envelope_def Let_def simp del: to_bytes_le_numeral)
qed

text \<open>
  Claim C6, as the code has it. A call of \<open>generic_api_call\<close> with command 0x74,
  subcommand 0, a payload of ten bytes, no \<open>force_length\<close> and no \<open>force_16bit_length\<close>
  advances the message id and hands the link the compact envelope: the length byte 12,
  the command byte 0x74, the subcommand byte 0, the new message id, then the payload.
  For a call without \<open>force_length\<close> the compact form is used when the payload length
  plus two fits in 0xFF and \<open>force_16bit_length\<close> is not set; otherwise the extended
  form is used (a zero byte first, the 16-bit length after the message id), as long as
  that length does not exceed 0xF000.
\<close>

theorem generic_api_call_compact_envelope:
  "(length payload = 10 \<longrightarrow>
      generic_api_call 0x74 0 sendonly payload None False incoming l =
        (case Link_transmit ([12, 0x74, 0, of_nat ((link_message_id l + 1) mod 255)] @ payload)
                (l\<lparr>link_message_id := link_message_id l + 1\<rparr>) of
           Inl e \<Rightarrow> (Inl e, incoming, l\<lparr>link_message_id := link_message_id l + 1\<rparr>)
         | Inr l2 \<Rightarrow>
             if sendonly then (Inr None, incoming, l2)
             else generic_api_call_response incoming l2))
   \<and> (0 \<le> cmd \<and> cmd \<le> 255 \<and> 0 \<le> sub \<and> sub \<le> 255 \<and> mid \<le> 255 \<longrightarrow>
        (length payload + 2 \<le> 0xFF \<longrightarrow>
           envelope cmd sub mid payload None False
             = Inr ([of_nat (length payload + 2), of_int cmd, of_int sub, of_nat mid]
                    @ payload @ replicate (length payload mod 2) 0))
        \<and> ((force_16bit_length \<or> 0xFF < length payload + 2) \<and> length payload + 4 \<le> 0xF000 \<longrightarrow>
           envelope cmd sub mid payload None force_16bit_length
             = Inr ([0, of_int cmd, of_int sub, of_nat mid]
                    @ to_bytes_le 2 (length payload + 4)
                    @ payload @ replicate (length payload mod 2) 0)))"
proof (intro conjI impI)
  assume len: "length payload = 10"
  have "(link_message_id l + 1) mod 255 \<le> 255"
    using mod_less_divisor [of 255 "link_message_id l + 1"] by simp
  then have "envelope 0x74 0 ((link_message_id l + 1) mod 255) payload None False
          = Inr ([12, 0x74, 0, of_nat ((link_message_id l + 1) mod 255)] @ payload)"
    using len envelope_compact [of "0x74" 0 "(link_message_id l + 1) mod 255" payload]
    by simp
  then show "generic_api_call 0x74 0 sendonly payload None False incoming l =
        (case Link_transmit ([12, 0x74, 0, of_nat ((link_message_id l + 1) mod 255)] @ payload)
                (l\<lparr>link_message_id := link_message_id l + 1\<rparr>) of
           Inl e \<Rightarrow> (Inl e, incoming, l\<lparr>link_message_id := link_message_id l + 1\<rparr>)
         | Inr l2 \<Rightarrow>
             if sendonly then (Inr None, incoming, l2)
             else generic_api_call_response incoming l2)"
    by (simp add: generic_api_call_def Link_increment_message_id_def split: sum.split)
next
  assume "0 \<le> cmd \<and> cmd \<le> 255 \<and> 0 \<le> sub \<and> sub \<le> 255 \<and> mid \<le> 255"
    and "length payload + 2 \<le> 0xFF"
  then show "envelope cmd sub mid payload None False
             = Inr ([of_nat (length payload + 2), of_int cmd, of_int sub, of_nat mid]
                    @ payload @ replicate (length payload mod 2) 0)"
    using envelope_compact by blast
next
  assume "0 \<le> cmd \<and> cmd \<le> 255 \<and> 0 \<le> sub \<and> sub \<le> 255 \<and> mid \<le> 255"
    and "(force_16bit_length \<or> 0xFF < length payload + 2) \<and> length payload + 4 \<le> 0xF000"
  then show "envelope cmd sub mid payload None force_16bit_length
             = Inr ([0, of_int cmd, of_int sub, of_nat mid]
                    @ to_bytes_le 2 (length payload + 4)
                    @ payload @ replicate (length payload mod 2) 0)"
    using envelope_extended by blast
qed

theorem generic_api_call_compact_envelope_witness:
  "generic_api_call 0x74 0 True [1, 2, 3, 4, 5, 6, 7, 8, 9, 10] None False [] example_link
     = (Inr None, [],
        example_link
          \<lparr>link_message_id := 1,
           link_line := link_line example_link
             \<lparr>comm_sent := [tcp_frame 0x10
                ([12, 0x74, 0, 1] @ [1, 2, 3, 4, 5, 6, 7, 8, 9, 10])]\<rparr>\<rparr>)
   \<and> envelope 0x74 0x92 1 [1, 2, 3] None True
       = Inr [0, 0x74, 0x92, 1, 7, 0, 1, 2, 3, 0]"
proof -
  have t: "Link_transmit ([12, 0x74, 0, 1] @ [1, 2, 3, 4, 5, 6, 7, 8, 9, 10])
             (example_link\<lparr>link_message_id := 1\<rparr>)
           = Inr (example_link
                   \<lparr>link_message_id := 1,
                    link_line := link_line example_link
                      \<lparr>comm_sent := [tcp_frame 0x10
                         ([12, 0x74, 0, 1] @ [1, 2, 3, 4, 5, 6, 7, 8, 9, 10])]\<rparr>\<rparr>)"
    by (simp add: Link_transmit_def CommunicationTcp_transmit_def example_link_def
                  CommunicationBase_init_def)
  have m: "link_message_id example_link = 0"
    by (simp add: example_link_def)
  from generic_api_call_compact_envelope
    [where payload = "[1, 2, 3, 4, 5, 6, 7, 8, 9, 10]" and sendonly = True
       and incoming = "[]" and l = example_link and cmd = "0x74" and sub = "0x92" and mid = 1]
  have a: "generic_api_call 0x74 0 True [1, 2, 3, 4, 5, 6, 7, 8, 9, 10] None False [] example_link
     = (Inr None, [],
        example_link
          \<lparr>link_message_id := 1,
           link_line := link_line example_link
             \<lparr>comm_sent := [tcp_frame 0x10
                ([12, 0x74, 0, 1] @ [1, 2, 3, 4, 5, 6, 7, 8, 9, 10])]\<rparr>\<rparr>)"
    using t m by simp
  from generic_api_call_compact_envelope
    [where payload = "[1, 2, 3]" and cmd = "0x74" and sub = "0x92" and mid = 1
       and force_16bit_length = True]
  have b: "envelope 0x74 0x92 1 [1, 2, 3] None True = Inr [0, 0x74, 0x92, 1, 7, 0, 1, 2, 3, 0]"
    by simp
  from a b show ?thesis by simp
qed

text \<open>
  The claim as the specification states it, for every call with a ten-byte payload and
  command 0x74, does not hold: the caller can ask for the 16-bit length, and then the
  envelope is in the extended form although its length fits in 0xFF.
\<close>

theorem generic_api_call_forced_16bit_counterexample:
  "comm_sent (link_line (snd (snd
     (generic_api_call 0x74 0 True [1, 2, 3, 4, 5, 6, 7, 8, 9, 10] None True [] example_link))))
     = [tcp_frame 0x10 ([0, 0x74, 0, 1, 14, 0] @ [1, 2, 3, 4, 5, 6, 7, 8, 9, 10])]
   \<and> [0, 0x74, 0, 1, 14, 0] @ [1, 2, 3, 4, 5, 6, 7, 8, 9, 10]
       \<noteq> [12, 0x74, 0, 1] @ [1, 2, 3, 4, 5, 6, 7, 8, 9, 10 :: byte]"
  by (simp add: generic_api_call_def Link_increment_message_id_def envelope_def
                Link_transmit_def CommunicationTcp_transmit_def example_link_def
                CommunicationBase_init_def)

subsection \<open>The size guard of a memory access bundle\<close>

lemma MemoryAccessBundle_serialize_too_large:
  assumes "MemoryAccessBundle_data access_list = Inr data"
    and "EMU_CBMAXDATASIZE < length data"
  shows "MemoryAccessBundle_serialize access_list
           = Inl (if 0xFFFF < length data then StructError else NotImplementedError)"
  using assms by (simp add: MemoryAccessBundle_serialize_def)

text \<open>
  Claim C4, as the code has it. When the serialized form of a bundle (length prefix,
  count, accesses, end marker) is longer than 0x3C00 bytes, \<open>serialize\<close> raises: the
  exception is \<open>NotImplementedError\<close> whenever the length still fits the 16-bit length
  prefix. \<open>t32_transfermemorybundleobj\<close> passes the exception on and leaves the link as it
  was: the message id is not advanced and nothing has been handed to the transport.
\<close>

theorem MemoryAccessBundle_size_guard:
  assumes "MemoryAccessBundle_data access_list = Inr data"
    and "EMU_CBMAXDATASIZE < length data"
  shows "(\<exists>e. MemoryAccessBundle_serialize access_list = Inl e
            \<and> t32_transfermemorybundleobj access_list incoming l = (Inl e, incoming, l))
       \<and> (length data \<le> 0xFFFF \<longrightarrow>
            MemoryAccessBundle_serialize access_list = Inl NotImplementedError)"
  using MemoryAccessBundle_serialize_too_large [OF assms]
  by (simp add: t32_transfermemorybundleobj_def)

lemma example_write_serialize:
  "MemoryAccess_serialize example_write
     = Inr (to_bytes_le 2 0 @ to_bytes_le 2 0x3C00 @ [3, 0] @ to_bytes_le 8 0x1000
            @ ascii ''WI'' @ to_bytes_le 2 1 @ ascii ''XX'' @ replicate 0x3C00 0)"
  by (simp add: example_write_def example_address_def pack_HH_def Address_serialize_def
                int2bytearray_def pack_2sH_def del: to_bytes_le_numeral)

lemma example_write_length:
  "MemoryAccess_serialize example_write = Inr tmp \<Longrightarrow> length tmp = 15380"
  by (auto simp: example_write_serialize ascii_def simp del: to_bytes_le_numeral)

theorem MemoryAccessBundle_size_guard_witness:
  "MemoryAccessBundle_serialize [example_write] = Inl NotImplementedError
   \<and> t32_transfermemorybundleobj [example_write] [] example_link
       = (Inl NotImplementedError, [], example_link)"
proof -
  let ?data = "to_bytes_le 2 0 @ to_bytes_le 2 1
               @ (to_bytes_le 2 0 @ to_bytes_le 2 0x3C00 @ [3, 0] @ to_bytes_le 8 0x1000
                  @ ascii ''WI'' @ to_bytes_le 2 1 @ ascii ''XX'' @ replicate 0x3C00 0)
               @ ascii ''XX''"
  have d: "MemoryAccessBundle_data [example_write] = Inr ?data"
    by (simp add: MemoryAccessBundle_data_def pack_HH_def example_write_serialize
             del: to_bytes_le_numeral)
  have len: "length ?data = 15386"
    by (simp add: ascii_def del: to_bytes_le_numeral)
  have big: "EMU_CBMAXDATASIZE < length ?data"
    unfolding len by (simp add: EMU_CBMAXDATASIZE_def)
  from MemoryAccessBundle_size_guard [OF d big, of "[]" example_link]
  show ?thesis unfolding len by auto
qed

text \<open>
  The claim as the specification states it does not hold: the code has no exception of
  the name \<open>BundleTooLargeError\<close>, and the kind of the failure depends on the size. One
  write access of 0x3C00 bytes (15386 bytes serialized) raises \<open>NotImplementedError\<close>;
  five of them (76906 bytes) raise \<open>struct.error\<close> when the length is written into the
  16-bit prefix, before the size is compared with the limit.
\<close>

theorem MemoryAccessBundle_error_kind_counterexample:
  "MemoryAccessBundle_serialize [example_write] = Inl NotImplementedError
   \<and> MemoryAccessBundle_serialize
        [example_write, example_write, example_write, example_write, example_write]
       = Inl StructError"
proof -
  have a: "MemoryAccessBundle_data [example_write]
             = Inr (to_bytes_le 2 0 @ to_bytes_le 2 1
               @ (to_bytes_le 2 0 @ to_bytes_le 2 0x3C00 @ [3, 0] @ to_bytes_le 8 0x1000
                  @ ascii ''WI'' @ to_bytes_le 2 1 @ ascii ''XX'' @ replicate 0x3C00 0)
               @ ascii ''XX'')"
    by (simp add: MemoryAccessBundle_data_def pack_HH_def example_write_serialize
             del: to_bytes_le_numeral)
  have one: "MemoryAccessBundle_serialize [example_write] = Inl NotImplementedError"
    by (simp add: MemoryAccessBundle_serialize_def a EMU_CBMAXDATASIZE_def ascii_def
             del: to_bytes_le_numeral)
  let ?w = "to_bytes_le 2 0 @ to_bytes_le 2 0x3C00 @ [3, 0] @ to_bytes_le 8 0x1000
            @ ascii ''WI'' @ to_bytes_le 2 1 @ ascii ''XX'' @ replicate 0x3C00 (0 :: byte)"
  have b: "MemoryAccessBundle_data
             [example_write, example_write, example_write, example_write, example_write]
             = Inr ((to_bytes_le 2 0 @ to_bytes_le 2 5) @ ?w @ ?w @ ?w @ ?w @ ?w @ ascii ''XX'')"
    by (simp add: MemoryAccessBundle_data_def pack_HH_def example_write_serialize
             del: to_bytes_le_numeral)
  have five: "MemoryAccessBundle_serialize
        [example_write, example_write, example_write, example_write, example_write]
       = Inl StructError"
    by (simp add: MemoryAccessBundle_serialize_def b ascii_def
             del: to_bytes_le_numeral)
  from one five show ?thesis by simp
qed

subsection \<open>Splitting a direct access bundle into requests\<close>

lemma fits_serialized:
  "fits a \<Longrightarrow> DirectAccess_serialize a = Inr (serialized a)
                \<and> length (serialized a) \<le> EMU_CBMAXDATASIZE - 1"
  by (auto simp: fits_def serialized_def split: sum.splits)

lemma get_requests_from_props:
  assumes "list_all fits accs" and "length (req_payload req) \<le> EMU_CBMAXDATASIZE - 1"
    and "req_payload req = concat (map serialized (req_access_list req))"
  shows "\<exists>reqs. get_requests_from rel accs req = (reqs, None) \<and> reqs \<noteq> []
     \<and> list_all (\<lambda>r. length (req_payload r) \<le> EMU_CBMAXDATASIZE) reqs
     \<and> list_all carries_accesses reqs
     \<and> list_all (\<lambda>r. last (req_payload r) = 0x01) (butlast reqs)
     \<and> last (req_payload (last reqs)) = (if rel then 0x00 else 0x01)
     \<and> concat (map req_access_list reqs) = req_access_list req @ accs
     \<and> closed_when_full reqs
     \<and> (\<exists>more. req_access_list (hd reqs) = req_access_list req @ more)"
  using assms
proof (induction accs arbitrary: req)
  case Nil
  then show ?case by (simp add: EMU_CBMAXDATASIZE_def carries_accesses_def)
next
  case (Cons a accs)
  from Cons.prems(1) have fa: "fits a" and rest: "list_all fits accs" by simp_all
  from fits_serialized [OF fa] have ser: "DirectAccess_serialize a = Inr (serialized a)"
    and small: "length (serialized a) \<le> EMU_CBMAXDATASIZE - 1" by simp_all
  show ?case
  proof (cases "length (req_payload req) + length (serialized a) > EMU_CBMAXDATASIZE - 1")
    case True
    let ?new = "add_access a (serialized a) empty_request"
    have n1: "length (req_payload ?new) \<le> EMU_CBMAXDATASIZE - 1"
      using small by (simp add: add_access_def empty_request_def)
    have n2: "req_payload ?new = concat (map serialized (req_access_list ?new))"
      by (simp add: add_access_def empty_request_def)
    from Cons.IH [OF rest n1 n2] obtain reqs more where
      r: "get_requests_from rel accs ?new = (reqs, None)" and ne: "reqs \<noteq> []"
      and sz: "list_all (\<lambda>r. length (req_payload r) \<le> EMU_CBMAXDATASIZE) reqs"
      and car: "list_all carries_accesses reqs"
      and hold: "list_all (\<lambda>r. last (req_payload r) = 0x01) (butlast reqs)"
      and fin: "last (req_payload (last reqs)) = (if rel then 0x00 else 0x01)"
      and acc: "concat (map req_access_list reqs) = req_access_list ?new @ accs"
      and full: "closed_when_full reqs"
      and first: "req_access_list (hd reqs) = req_access_list ?new @ more"
      by blast
    let ?closed = "req\<lparr>req_payload := req_payload req @ [0x01]\<rparr>"
    have g: "get_requests_from rel (a # accs) req = (?closed # reqs, None)"
      using ser small True r by simp
    have c1: "length (req_payload ?closed) \<le> EMU_CBMAXDATASIZE"
      using Cons.prems(2) by (simp add: EMU_CBMAXDATASIZE_def)
    have c2: "carries_accesses ?closed"
      using Cons.prems(3) by (simp add: carries_accesses_def)
    from first have h: "req_access_list (hd reqs) = a # more"
      by (simp add: add_access_def empty_request_def)
    obtain r' rs where rs: "reqs = r' # rs" using ne by (cases reqs) auto
    with h have h': "req_access_list r' = a # more" by simp
    have c3: "closed_when_full (?closed # reqs)"
      using full True h' by (simp add: rs)
    have c4: "concat (map req_access_list (?closed # reqs)) = req_access_list req @ a # accs"
      using acc by (simp add: add_access_def empty_request_def)
    have c5: "list_all (\<lambda>r. last (req_payload r) = 0x01) (butlast (?closed # reqs))"
      using hold ne by simp
    have c6: "last (req_payload (last (?closed # reqs))) = (if rel then 0x00 else 0x01)"
      using fin ne by simp
    have c7: "req_access_list (hd (?closed # reqs)) = req_access_list req @ []" by simp
    from g sz car c1 c2 c3 c4 c5 c6 c7 show ?thesis
      by (intro exI [of _ "?closed # reqs"] conjI) (simp_all del: closed_when_full.simps)
  next
    case False
    let ?req = "add_access a (serialized a) req"
    have n1: "length (req_payload ?req) \<le> EMU_CBMAXDATASIZE - 1"
      using False by (simp add: add_access_def)
    have n2: "req_payload ?req = concat (map serialized (req_access_list ?req))"
      using Cons.prems(3) by (simp add: add_access_def)
    from Cons.IH [OF rest n1 n2] obtain reqs more where
      r: "get_requests_from rel accs ?req = (reqs, None)" and ne: "reqs \<noteq> []"
      and sz: "list_all (\<lambda>r. length (req_payload r) \<le> EMU_CBMAXDATASIZE) reqs"
      and car: "list_all carries_accesses reqs"
      and hold: "list_all (\<lambda>r. last (req_payload r) = 0x01) (butlast reqs)"
      and fin: "last (req_payload (last reqs)) = (if rel then 0x00 else 0x01)"
      and acc: "concat (map req_access_list reqs) = req_access_list ?req @ accs"
      and full: "closed_when_full reqs"
      and first: "req_access_list (hd reqs) = req_access_list ?req @ more"
      by blast
    have g: "get_requests_from rel (a # accs) req = (reqs, None)"
      using ser small False r by simp
    have c4: "concat (map req_access_list reqs) = req_access_list req @ a # accs"
      using acc by (simp add: add_access_def)
    have c7: "req_access_list (hd reqs) = req_access_list req @ (a # more)"
      using first by (simp add: add_access_def)
    from g ne sz car hold fin c4 full c7 show ?thesis by blast
  qed
qed

lemma length_concat_bound:
  "list_all (\<lambda>x. length (f x) \<le> k) xs \<Longrightarrow> length (concat (map f xs)) \<le> length xs * k"
  by (induction xs) auto

lemma total_size_concat: "length (concat (map serialized accs)) = total_size accs"
  by (induction accs) (simp_all add: total_size_def)

lemma carried_payloads:
  "list_all carries_accesses reqs \<Longrightarrow>
     concat (map (\<lambda>r. butlast (req_payload r)) reqs)
       = concat (map serialized (concat (map req_access_list reqs)))"
  by (induction reqs) (simp_all add: carries_accesses_def)

text \<open>
  Claim C5, as the code has it. When every access of a direct access bundle fits alone,
  request generation raises nothing and yields at least one request. The payload of
  every request is at most 0x3C00 bytes long and consists of the serialized accesses the
  request carries and one flag byte; the requests carry the accesses of the bundle in
  order. A request is closed only when it is full: its payload without the flag byte and
  the first access of the next request are together longer than 0x3BFF bytes. Every
  request but the last ends with the hold flag 0x01, and the last ends with 0x00 when
  \<open>release_debug_port\<close> is true and with 0x01 otherwise. Accesses are never cut, so the
  number of requests is at least the total size divided by the limit, rounded up (each
  request carries at most 0x3BFF bytes of accesses), and can be more.
\<close>

theorem DirectAccessBundle_get_requests_split:
  assumes "list_all fits access_list"
  shows "\<exists>reqs. DirectAccessBundle_get_requests release_debug_port access_list = (reqs, None)
     \<and> reqs \<noteq> []
     \<and> list_all (\<lambda>r. length (req_payload r) \<le> EMU_CBMAXDATASIZE) reqs
     \<and> list_all carries_accesses reqs
     \<and> closed_when_full reqs
     \<and> list_all (\<lambda>r. last (req_payload r) = 0x01) (butlast reqs)
     \<and> last (req_payload (last reqs)) = (if release_debug_port then 0x00 else 0x01)
     \<and> concat (map (\<lambda>r. butlast (req_payload r)) reqs) = concat (map serialized access_list)
     \<and> concat (map req_access_list reqs) = access_list
     \<and> total_size access_list \<le> length reqs * (EMU_CBMAXDATASIZE - 1)
     \<and> (total_size access_list + EMU_CBMAXDATASIZE - 1) div EMU_CBMAXDATASIZE \<le> length reqs"
proof -
  have e1: "length (req_payload empty_request) \<le> EMU_CBMAXDATASIZE - 1"
    by (simp add: empty_request_def)
  have e2: "req_payload empty_request = concat (map serialized (req_access_list empty_request))"
    by (simp add: empty_request_def)
  from get_requests_from_props [OF assms e1 e2, of release_debug_port] obtain reqs where
    r: "get_requests_from release_debug_port access_list empty_request = (reqs, None)"
    and ne: "reqs \<noteq> []"
    and sz1: "list_all (\<lambda>r. length (req_payload r) \<le> EMU_CBMAXDATASIZE) reqs"
    and car: "list_all carries_accesses reqs"
    and hold: "list_all (\<lambda>r. last (req_payload r) = 0x01) (butlast reqs)"
    and fin: "last (req_payload (last reqs)) = (if release_debug_port then 0x00 else 0x01)"
    and acc: "concat (map req_access_list reqs) = req_access_list empty_request @ access_list"
    and full: "closed_when_full reqs"
    by blast
  from acc have acc': "concat (map req_access_list reqs) = access_list"
    by (simp add: empty_request_def)
  have pay: "concat (map (\<lambda>r. butlast (req_payload r)) reqs) = concat (map serialized access_list)"
    using carried_payloads [OF car] acc' by simp
  from sz1 car have sz2: "list_all (\<lambda>r. length (butlast (req_payload r)) \<le> EMU_CBMAXDATASIZE - 1) reqs"
    by (induction reqs) (auto simp: carries_accesses_def)
  have "total_size access_list = length (concat (map (\<lambda>r. butlast (req_payload r)) reqs))"
    using pay by (simp add: total_size_concat)
  also have "\<dots> \<le> length reqs * (EMU_CBMAXDATASIZE - 1)"
    by (rule length_concat_bound [OF sz2])
  finally have tot: "total_size access_list \<le> length reqs * (EMU_CBMAXDATASIZE - 1)" .
  have "0 < length reqs" using ne by simp
  with tot have "total_size access_list + 15359 < (length reqs + 1) * 15360"
    by (simp add: EMU_CBMAXDATASIZE_def)
  then have "(total_size access_list + 15359) div 15360 < length reqs + 1"
    by (simp add: div_less_iff_less_mult)
  then have cnt: "(total_size access_list + EMU_CBMAXDATASIZE - 1) div EMU_CBMAXDATASIZE
                    \<le> length reqs"
    by (simp add: EMU_CBMAXDATASIZE_def)
  from r ne sz1 car full hold fin pay acc' tot cnt show ?thesis
    by (simp add: DirectAccessBundle_get_requests_def del: closed_when_full.simps)
qed

lemma example_shift_serialize:
  "DirectAccess_serialize example_shift
     = Inr ([0xEF, 0xFF] @ to_bytes_le 4 64064 @ [0x90, 0x00] @ to_bytes_le 2 1
            @ to_bytes_le 4 64000 @ replicate 8000 0x55)"
  by (simp add: example_shift_def serialize_payload_def serialize_header_def
                shift_raw_option_bits_def truthy_def del: to_bytes_le_numeral)

lemma example_shift_serialized_length: "length (serialized example_shift) = 8014"
  by (simp add: serialized_def example_shift_serialize del: to_bytes_le_numeral)

lemma example_shift_fits: "fits example_shift"
  by (simp add: fits_def example_shift_serialize EMU_CBMAXDATASIZE_def del: to_bytes_le_numeral)

theorem DirectAccessBundle_get_requests_split_witness:
  "\<exists>reqs. DirectAccessBundle_get_requests True [example_shift, example_shift, example_shift]
            = (reqs, None)
     \<and> list_all (\<lambda>r. length (req_payload r) \<le> EMU_CBMAXDATASIZE) reqs
     \<and> list_all (\<lambda>r. last (req_payload r) = 0x01) (butlast reqs)
     \<and> last (req_payload (last reqs)) = 0x00
     \<and> concat (map req_access_list reqs) = [example_shift, example_shift, example_shift]
     \<and> list_all carries_accesses reqs
     \<and> closed_when_full reqs
     \<and> 2 \<le> length reqs"
proof -
  have f: "list_all fits [example_shift, example_shift, example_shift]"
    by (simp add: example_shift_fits)
  have t: "total_size [example_shift, example_shift, example_shift] = 24042"
    by (simp add: total_size_def example_shift_serialized_length)
  from DirectAccessBundle_get_requests_split [OF f, of True]
  show ?thesis unfolding t by (auto simp: EMU_CBMAXDATASIZE_def simp del: closed_when_full.simps)
qed

text \<open>
  The claim as the specification states it does not hold for the number of requests.
  Three raw shifts of 8014 serialized bytes each have a total size of 24042 bytes,
  which is more than the limit of 0x3C00 = 15360 bytes and two limits' worth at most;
  but no two of them fit into one request, so three requests are generated.
\<close>

theorem DirectAccessBundle_request_count_counterexample:
  "list_all fits [example_shift, example_shift, example_shift]
   \<and> total_size [example_shift, example_shift, example_shift] = 24042
   \<and> (24042 + EMU_CBMAXDATASIZE - 1) div EMU_CBMAXDATASIZE = 2
   \<and> map (\<lambda>r. length (req_payload r))
        (fst (DirectAccessBundle_get_requests True [example_shift, example_shift, example_shift]))
       = [8015, 8015, 8015]
   \<and> snd (DirectAccessBundle_get_requests True [example_shift, example_shift, example_shift])
       = None"
  by (simp add: example_shift_fits total_size_def example_shift_serialized_length
                DirectAccessBundle_get_requests_def example_shift_serialize
                EMU_CBMAXDATASIZE_def empty_request_def add_access_def
           del: to_bytes_le_numeral)

subsection \<open>Serializing and deserializing objects\<close>

lemma length_ascii [simp]: "length (ascii s) = length s"
  by (simp add: ascii_def)






lemma lstrip_clean: "s = [] \<or> hd s \<noteq> c \<Longrightarrow> lstrip c s = s"
  by (cases s) (simp_all add: lstrip_def)














lemma Type_of_value [simp]: "Type_of (Type_value t) = Inr t"
  by (cases t) (simp_all add: Type_of_def)

lemma Impl_of_value [simp]: "Impl_of (Impl_value i) = Inr i"
  by (cases i) (simp_all add: Impl_of_def)

lemma Action_of_value [simp]: "Action_of (Action_value a) = Inr a"
  by (cases a) (simp_all add: Action_of_def)


















































end
